theory Spec2Isabelle
  imports Complex_Main
begin

section \<open>Data model\<close>

text \<open>
  A shallow embedding of \<^verbatim>\<open>nenupy/undysputed/dynspec.py\<close>: the lane decoder's derived
  quantities, the polarimetric assembler and the stages of the correction pipeline.
  Python exceptions are values of \<open>error\<close>; a function that can raise returns
  \<open>error + 'a\<close> with \<open>Inl\<close> for the exception. Floating-point numbers are idealised as
  \<open>real\<close>; a not-a-number sample is \<open>None\<close> in the type \<open>val\<close>.
\<close>

datatype error =
    FileNotFoundError
  | ValueError
  | TypeError
  | NotImplementedError
  | IndexError
  | KeyError
  | ZeroDivisionError
  | OverflowError
  | UnboundLocalError

type_synonym val = "real option"

abbreviation NaN :: val where
  "NaN \<equiv> None"

subsection \<open>Capture header and native resolutions (\<open>HEADER_STRUCT\<close>, \<open>_Lane._load\<close>)\<close>

text \<open>The nine header fields; the unsigned 64-bit fields are naturals, the 32-bit ones integers.\<close>

record header =
  idx :: nat
  TIMESTAMP :: nat
  BLOCKSEQNUMBER :: nat
  fftlen :: int
  nfft2int :: int
  fftovlp :: int
  apodisation :: int
  nffte :: int
  nbchan :: int

text \<open>\<^verbatim>\<open>self.dt = 5.12e-6*n_channels*nfft2int*u.s\<close> with \<^verbatim>\<open>n_channels = header["fftlen"]\<close>.\<close>

definition dt_of :: "header \<Rightarrow> real" where
  "dt_of h = 5.12 / 10 ^ 6 * real_of_int (fftlen h) * real_of_int (nfft2int h)"

text \<open>\<^verbatim>\<open>self.df = (1.0/5.12e-6/n_channels)*u.Hz\<close>.\<close>

definition df_of :: "header \<Rightarrow> real" where
  "df_of h = 1 / (5.12 / 10 ^ 6) / real_of_int (fftlen h)"

subsection \<open>Polarimetric assembler (\<open>_Lane._to_ejones\<close>, \<open>_Lane.get_stokes\<close>)\<close>

text \<open>
  One sample of the coherency cube: the trailing \<open>(2, 2)\<close> axes of \<^verbatim>\<open>self.data\<close>;
  field \<open>mAB\<close> is \<^verbatim>\<open>data[..., A, B]\<close>.
\<close>

record jones =
  m00 :: complex
  m01 :: complex
  m10 :: complex
  m11 :: complex

text \<open>The coherency cube, indexed (time, frequency).\<close>

type_synonym ejones = "jones list list"

text \<open>
  \<^verbatim>\<open>_to_ejones\<close> on one sample. \<open>f0 = (XX, YY)\<close> is \<^verbatim>\<open>fft0[..., :]\<close> and \<open>f1 = (Re, Im)\<close> is
  \<^verbatim>\<open>fft1[..., :]\<close>. The source stacks \<open>row1\<close> and \<open>row2\<close> along a new last axis
  (\<^verbatim>\<open>da.stack([row1, row2], axis=-1)\<close>), so \<^verbatim>\<open>out[..., a, b] = [row1, row2][b][..., a]\<close>.
\<close>

definition ejones_sample :: "real \<times> real \<Rightarrow> real \<times> real \<Rightarrow> jones" where
  "ejones_sample f0 f1 =
     (let row1 = [complex_of_real (fst f0),
                  complex_of_real (fst f1) - \<i> * complex_of_real (snd f1)];
          row2 = [complex_of_real (fst f1) + \<i> * complex_of_real (snd f1),
                  complex_of_real (snd f0)]
      in \<lparr>m00 = row1 ! 0, m01 = row2 ! 0, m10 = row1 ! 1, m11 = row2 ! 1\<rparr>)"

definition to_ejones :: "(real \<times> real) list list \<Rightarrow> (real \<times> real) list list \<Rightarrow> ejones" where
  "to_ejones fft0 fft1 = map2 (map2 ejones_sample) fft0 fft1"

text \<open>\<^verbatim>\<open>str.upper\<close> on one character of an ASCII string.\<close>

definition upper :: "char \<Rightarrow> char" where
  "upper c =
     (case map_of (zip ''abcdefghijklmnopqrstuvwxyz'' ''ABCDEFGHIJKLMNOPQRSTUVWXYZ'') c of
        Some u \<Rightarrow> u
      | None \<Rightarrow> c)"

text \<open>The \<^verbatim>\<open>if/elif\<close> chain of \<^verbatim>\<open>get_stokes\<close>: the (time, frequency) plane of one letter.\<close>

definition stokes_plane :: "char \<Rightarrow> ejones \<Rightarrow> error + real list list" where
  "stokes_plane stokes_i data =
     (if upper stokes_i = CHR ''I'' then Inr (map (map (\<lambda>m. Re (m00 m) + Re (m11 m))) data)
      else if upper stokes_i = CHR ''Q'' then Inr (map (map (\<lambda>m. Re (m00 m) - Re (m11 m))) data)
      else if upper stokes_i = CHR ''U'' then Inr (map (map (\<lambda>m. Re (m01 m) * 2)) data)
      else if upper stokes_i = CHR ''V'' then Inr (map (map (\<lambda>m. Im (m01 m) * 2)) data)
      else Inl NotImplementedError)"

text \<open>
  The loop of \<^verbatim>\<open>get_stokes\<close> over the letters of the request. The accumulator is
  \<^verbatim>\<open>data\<close>: \<open>None\<close> before the first letter, then the (time, frequency, pol) array to
  which each new plane is concatenated along the last axis.
\<close>

fun get_stokes_loop ::
  "string \<Rightarrow> ejones \<Rightarrow> real list list list option \<Rightarrow> error + real list list list option" where
  "get_stokes_loop [] data acc = Inr acc"
| "get_stokes_loop (stokes_i # rest) data acc =
     (case stokes_plane stokes_i data of
        Inl e \<Rightarrow> Inl e
      | Inr data_i \<Rightarrow>
          get_stokes_loop rest data
            (Some (case acc of
                     None \<Rightarrow> map (map (\<lambda>v. [v])) data_i
                   | Some d \<Rightarrow> map2 (map2 (\<lambda>cell v. cell @ [v])) d data_i)))"

definition get_stokes :: "ejones \<Rightarrow> string \<Rightarrow> error + real list list list option" where
  "get_stokes data stokes = get_stokes_loop stokes data None"


subsection \<open>Lanes and the observation (\<open>_Lane\<close>, \<open>Dynspec\<close>)\<close>

text \<open>
  The attributes of a \<^verbatim>\<open>_Lane\<close> once \<^verbatim>\<open>_load\<close> has run. \<open>lane_data\<close> is \<^verbatim>\<open>self.data\<close>
  and \<open>data_shape\<close> its \<^verbatim>\<open>shape[:2]\<close>, the lengths of the time and frequency axes;
  \<open>lane_dt\<close> and \<open>lane_df\<close> are \<^verbatim>\<open>self.dt\<close> and \<^verbatim>\<open>self.df\<close>, \<open>lane_fmin\<close> and \<open>lane_fmax\<close>
  are \<^verbatim>\<open>self._fmin\<close> and \<^verbatim>\<open>self._fmax\<close>. The dictionary \<^verbatim>\<open>beam_idx\<close> is an association
  list from the beam number (the source keys it by \<^verbatim>\<open>str(b)\<close>, which is one-to-one on
  integers) to the pair (start, stop) of indices on the frequency axis. \<open>lane_index\<close> is
  \<open>None\<close>: \<^verbatim>\<open>__init__\<close> assigns \<^verbatim>\<open>None\<close> to it after the setter of \<^verbatim>\<open>lanefile\<close> has
  stored the index of the name, and nothing assigns it again.
\<close>

record lane =
  lanefile :: string
  lane_index :: "nat option"
  lane_data :: ejones
  data_shape :: "nat \<times> nat"
  time_unix :: "real list"
  frequency_hz :: "real list"
  lane_dt :: real
  lane_df :: real
  n_channels :: nat
  beam_idx :: "(int \<times> nat \<times> nat) list"
  lane_fmin :: real
  lane_fmax :: real

text \<open>
  The state of a \<^verbatim>\<open>Dynspec\<close>. \<open>time_range_sel\<close> and \<open>freq_range_sel\<close> are
  \<^verbatim>\<open>_time_range\<close> and \<^verbatim>\<open>_freq_range\<close>, \<open>None\<close> while the attribute does not exist; the
  other fields are the attributes behind the properties of the same names. Times are
  Unix seconds, frequencies Hz.
\<close>

record dynspec =
  lanes :: "lane list"
  lanefiles :: "string list"
  time_range_sel :: "(real \<times> real) option"
  freq_range_sel :: "(real \<times> real) option"
  beam :: int
  dispersion_measure :: "real option"
  rebin_dt :: "real option"
  rebin_df :: "real option"
  jump_correction :: bool
  bp_correction :: string
  edge_channels_to_remove :: int
  freq_flat :: bool
  clean_rfi :: bool

text \<open>Records of the logger, by level.\<close>

datatype log_level = DEBUG | INFO | WARNING

text \<open>
  \<^verbatim>\<open>Dynspec.nchan\<close>: the channel count of the first lane, with a warning when the lanes
  disagree; \<^verbatim>\<open>self.lanes[0]\<close> raises on an observation without lanes.
\<close>

definition nchan :: "dynspec \<Rightarrow> error + nat \<times> log_level list" where
  "nchan ds =
     (case lanes ds of
        [] \<Rightarrow> Inl IndexError
      | l # ls \<Rightarrow>
          Inr (n_channels l,
               if list_all (\<lambda>li. n_channels li = n_channels l) (l # ls) then [] else [WARNING]))"

text \<open>\<^verbatim>\<open>Dynspec.fmin\<close> and \<^verbatim>\<open>Dynspec.fmax\<close>: \<^verbatim>\<open>min\<close> and \<^verbatim>\<open>max\<close> over the lanes.\<close>

definition ds_fmin :: "dynspec \<Rightarrow> error + real" where
  "ds_fmin ds =
     (case lanes ds of
        [] \<Rightarrow> Inl ValueError
      | l # ls \<Rightarrow> Inr (fold min (map lane_fmin ls) (lane_fmin l)))"

definition ds_fmax :: "dynspec \<Rightarrow> error + real" where
  "ds_fmax ds =
     (case lanes ds of
        [] \<Rightarrow> Inl ValueError
      | l # ls \<Rightarrow> Inr (fold max (map lane_fmax ls) (lane_fmax l)))"

text \<open>The getter of \<^verbatim>\<open>freq_range\<close>: the selection, or the whole band while none is set.\<close>

definition freq_range :: "dynspec \<Rightarrow> error + real \<times> real" where
  "freq_range ds =
     (case freq_range_sel ds of
        Some r \<Rightarrow> Inr r
      | None \<Rightarrow>
          (case ds_fmin ds of
             Inl e \<Rightarrow> Inl e
           | Inr lo \<Rightarrow> (case ds_fmax ds of Inl e \<Rightarrow> Inl e | Inr hi \<Rightarrow> Inr (lo, hi))))"

subsection \<open>Arrays of the pipeline\<close>

text \<open>
  A (time, frequency, pol) array with its \<^verbatim>\<open>shape\<close>: \<open>cells d ! t ! f ! p\<close> is
  \<^verbatim>\<open>data[t, f, p]\<close>. The shape is kept beside the cells because the source reads it also
  from arrays with an empty axis.
\<close>

record darray =
  shape0 :: nat
  shape1 :: nat
  shape2 :: nat
  cells :: "val list list list"

definition wf_darray :: "darray \<Rightarrow> bool" where
  "wf_darray d =
     (length (cells d) = shape0 d \<and>
      list_all (\<lambda>row. length row = shape1 d \<and> list_all (\<lambda>c. length c = shape2 d) row) (cells d))"

text \<open>
  Where a slice bound \<open>i\<close> falls in a sequence of length \<open>n\<close>: a negative bound counts
  from the end, and bounds are clipped to the sequence.
\<close>

definition slice_bound :: "nat \<Rightarrow> int \<Rightarrow> nat" where
  "slice_bound n i = (if i < 0 then nat (max 0 (int n + i)) else min (nat i) n)"

text \<open>\<^verbatim>\<open>xs[a:b]\<close>.\<close>

definition slice :: "'a list \<Rightarrow> int \<Rightarrow> int \<Rightarrow> 'a list" where
  "slice xs a b =
     take (slice_bound (length xs) b - slice_bound (length xs) a)
       (drop (slice_bound (length xs) a) xs)"

text \<open>
  \<^verbatim>\<open>reshape\<close> of one axis of length \<open>k * m\<close> into \<open>(k, m)\<close>: \<open>k\<close> consecutive chunks of
  \<open>m\<close> entries.
\<close>

fun chop :: "nat \<Rightarrow> nat \<Rightarrow> 'a list \<Rightarrow> 'a list list" where
  "chop 0 m xs = []"
| "chop (Suc k) m xs = take m xs # chop k m (drop m xs)"

subsection \<open>Edge-channel flagging (\<open>edge_channels_to_remove\<close>, \<open>_remove_edge_channels\<close>)\<close>

text \<open>A value handed to a setter: a Python \<^verbatim>\<open>int\<close>, or something that is not one.\<close>

datatype pyval = PyInt int | PyFloat real | PyNone

text \<open>
  The setter of \<^verbatim>\<open>edge_channels_to_remove\<close>. It returns the new state and the records
  it logs; the warning of a count above half the channels reads \<^verbatim>\<open>self.nchan\<close> once more
  for its text, which logs the records of \<open>nchan\<close> again.
\<close>

definition set_edge_channels_to_remove ::
  "dynspec \<Rightarrow> pyval \<Rightarrow> error + dynspec \<times> log_level list" where
  "set_edge_channels_to_remove ds n =
     (let default_val = 0 in
      case n of
        PyInt k \<Rightarrow>
          (case nchan ds of
             Inl e \<Rightarrow> Inl e
           | Inr (nch, w) \<Rightarrow>
               let (k', logs) =
                     (if k * 2 > int nch then (default_val, w @ [WARNING])
                      else if k < 0 then (default_val, [WARNING])
                      else (k, []))
               in Inr (ds\<lparr>edge_channels_to_remove := k'\<rparr>,
                       w @ logs @ (if k' > 0 then [INFO] else [])))
      | _ \<Rightarrow> Inr (ds\<lparr>edge_channels_to_remove := default_val\<rparr>, [WARNING]))"

text \<open>
  \<^verbatim>\<open>x[:n] = nan\<close> followed by \<^verbatim>\<open>x[-n:] = nan\<close> on the channel axis of one subband, for
  \<open>n > 0\<close>; \<open>nan\<close> is the all-NaN entry that replaces a channel.
\<close>

definition nan_edges :: "nat \<Rightarrow> 'a \<Rightarrow> 'a list \<Rightarrow> 'a list" where
  "nan_edges n nan x =
     (let lower = replicate (slice_bound (length x) (int n)) nan
                    @ drop (slice_bound (length x) (int n)) x;
          start = slice_bound (length lower) (- int n)
      in take start lower @ replicate (length lower - start) nan)"

text \<open>
  \<^verbatim>\<open>_remove_edge_channels\<close>. The reshape to (time, subbands, channels, pol) raises when
  the sizes do not agree. On a zero channel count (a numpy integer) the quotient
  \<^verbatim>\<open>nfreqs/nchannels\<close> is infinite or not a number, and \<^verbatim>\<open>int\<close> raises on it.
\<close>

definition remove_edge_channels :: "dynspec \<Rightarrow> darray \<Rightarrow> error + darray" where
  "remove_edge_channels ds d =
     (if edge_channels_to_remove ds > 0 then
        (case nchan ds of
           Inl e \<Rightarrow> Inl e
         | Inr (nchannels, w) \<Rightarrow>
             let ntimes = shape0 d; nfreqs = shape1 d; npols = shape2 d in
             if nchannels = 0 then Inl (if nfreqs = 0 then ValueError else OverflowError)
             else
               let nsubbands = nfreqs div nchannels in
               if ntimes * nsubbands * nchannels * npols \<noteq> ntimes * nfreqs * npols
               then Inl ValueError
               else Inr (d\<lparr>cells :=
                 map (\<lambda>row. concat (map (nan_edges (nat (edge_channels_to_remove ds))
                                            (replicate npols NaN))
                                    (chop nsubbands nchannels row)))
                     (cells d)\<rparr>))
      else Inr d)"

subsection \<open>Dedispersion (\<open>_dedisperse\<close>)\<close>

text \<open>\<^verbatim>\<open>np.round\<close> followed by \<^verbatim>\<open>astype(int)\<close>: to the nearest integer, halves to the even one.\<close>

definition np_round :: "real \<Rightarrow> int" where
  "np_round x =
     (let f = \<lfloor>x\<rfloor>; r = x - of_int f
      in if r < 1 / 2 then f else if 1 / 2 < r then f + 1 else if even f then f else f + 1)"

text \<open>\<^verbatim>\<open>np.roll(a, shift, 0)\<close>: entry \<open>j\<close> of the result is entry \<open>(j - shift) mod n\<close> of \<open>a\<close>.\<close>

definition roll :: "'a list \<Rightarrow> int \<Rightarrow> 'a list" where
  "roll a shift = (if a = [] then [] else rotate (nat ((- shift) mod int (length a))) a)"

text \<open>Reading and writing \<^verbatim>\<open>data[:, i, :]\<close>.\<close>

definition get_col :: "'a list list \<Rightarrow> nat \<Rightarrow> 'a list" where
  "get_col cs i = map (\<lambda>row. row ! i) cs"

definition set_col :: "'a list list \<Rightarrow> nat \<Rightarrow> 'a list \<Rightarrow> 'a list list" where
  "set_col cs i col = map2 (\<lambda>row v. row[i := v]) cs col"

text \<open>
  The body of the loop over the channels, for channel \<open>i\<close> with cell delay \<open>c\<close>:
  \<^verbatim>\<open>data[:, i, :] = np.roll(data[:, i, :], -c, 0)\<close> and then
  \<^verbatim>\<open>data[-c:, i, :] = np.nan\<close>.
\<close>

definition dedisperse_channel :: "nat \<Rightarrow> int list \<Rightarrow> val list list list \<Rightarrow> nat \<Rightarrow> val list list list" where
  "dedisperse_channel npols cell_delays cs i =
     (let rolled = set_col cs i (roll (get_col cs i) (- (cell_delays ! i)));
          start = slice_bound (length rolled) (- (cell_delays ! i))
      in take start rolled
           @ map (\<lambda>row. row[i := replicate npols NaN]) (drop start rolled))"

text \<open>
  \<^verbatim>\<open>_dedisperse\<close>. \<open>dispersion_delay\<close> is \<^verbatim>\<open>nenupy.astro.dispersion_delay\<close>, a function of
  a frequency and a dispersion measure that is not part of this file: it is a
  parameter. \<open>dt\<close> is the time step of the lane.
\<close>

definition dedisperse ::
  "(real \<Rightarrow> real \<Rightarrow> real) \<Rightarrow> dynspec \<Rightarrow> darray \<Rightarrow> real list \<Rightarrow> real \<Rightarrow> error + darray" where
  "dedisperse dispersion_delay ds d freqs dt =
     (case dispersion_measure ds of
        None \<Rightarrow> Inr d
      | Some dm \<Rightarrow>
          if shape1 d \<noteq> length freqs then Inl ValueError
          else
            (case freq_range ds of
               Inl e \<Rightarrow> Inl e
             | Inr (f_lo, f_hi) \<Rightarrow>
                 let delays = map (\<lambda>f. dispersion_delay f dm - dispersion_delay f_hi dm) freqs;
                     cell_delays = map (\<lambda>x. np_round (x / dt)) delays
                 in Inr (d\<lparr>cells :=
                      foldl (dedisperse_channel (shape2 d) cell_delays) (cells d)
                        [0..<length freqs]\<rparr>)))"

text \<open>
  The formulas the specification gives for the four Stokes parameters, read on one
  sample of the cube: \<open>XX\<close> is \<open>m00\<close>, \<open>YY\<close> is \<open>m11\<close> and the off-diagonal term is
  \<open>m01\<close>. \<open>known_stokes\<close> holds of the letters the specification lists.
\<close>

definition stokes_formula :: "char \<Rightarrow> jones \<Rightarrow> real" where
  "stokes_formula c m =
     (if upper c = CHR ''I'' then Re (m00 m) + Re (m11 m)
      else if upper c = CHR ''Q'' then Re (m00 m) - Re (m11 m)
      else if upper c = CHR ''U'' then 2 * Re (m01 m)
      else 2 * Im (m01 m))"

definition known_stokes :: "char \<Rightarrow> bool" where
  "known_stokes c =
     (upper c = CHR ''I'' \<or> upper c = CHR ''Q'' \<or> upper c = CHR ''U'' \<or> upper c = CHR ''V'')"

text \<open>The array of the same shape whose samples are all NaN.\<close>

definition all_nan :: "darray \<Rightarrow> darray" where
  "all_nan d = d\<lparr>cells := replicate (shape0 d) (replicate (shape1 d) (replicate (shape2 d) NaN))\<rparr>"

text \<open>A list of \<open>nt\<close> rows of \<open>nf\<close> entries each.\<close>

definition rect :: "nat \<Rightarrow> nat \<Rightarrow> 'a list list \<Rightarrow> bool" where
  "rect nt nf cs = (length cs = nt \<and> list_all (\<lambda>row. length row = nf) cs)"

subsection \<open>Rebinning (\<open>_rebin\<close>)\<close>

text \<open>\<^verbatim>\<open>np.nanmean\<close> of a list of samples, and the mean of a list of axis values.\<close>

definition nanmean :: "val list \<Rightarrow> val" where
  "nanmean xs =
     (let ys = map the (filter (\<lambda>x. x \<noteq> NaN) xs)
      in if ys = [] then NaN else Some (sum_list ys / real (length ys)))"

definition mean :: "real list \<Rightarrow> real" where
  "mean xs = sum_list xs / real (length xs)"

text \<open>
  \<^verbatim>\<open>np.nanmean(data, axis=1)\<close> on one bin of the array reshaped to (bins, width,
  frequency, pol): the mean over the rows of the bin, for each frequency and
  polarization. \<open>nanmean_chunk\<close> is the same over the channels of one frequency bin.
\<close>

definition nanmean_rows :: "nat \<Rightarrow> nat \<Rightarrow> val list list list \<Rightarrow> val list list" where
  "nanmean_rows nf np bin =
     map (\<lambda>f. map (\<lambda>p. nanmean (map (\<lambda>row. row ! f ! p) bin)) [0..<np]) [0..<nf]"

definition nanmean_chunk :: "nat \<Rightarrow> val list list \<Rightarrow> val list" where
  "nanmean_chunk np chunk = map (\<lambda>p. nanmean (map (\<lambda>c. c ! p) chunk)) [0..<np]"

text \<open>
  The time branch of \<^verbatim>\<open>_rebin\<close>, for a bin width \<open>rdt\<close> and the lane's time step \<open>dt\<close>.
  The integers are Python's: \<open>div\<close> and \<open>mod\<close> round towards minus infinity as \<^verbatim>\<open>//\<close>
  and \<^verbatim>\<open>%\<close> do, both divisions raise on a zero divisor, and the two \<^verbatim>\<open>reshape\<close> calls
  raise on a negative dimension or on sizes that do not agree.
\<close>

definition rebin_time ::
  "real \<Rightarrow> real \<Rightarrow> darray \<Rightarrow> real list \<Rightarrow> error + darray \<times> real list" where
  "rebin_time rdt dt d times_unix =
     (let ntimes_i = int (shape0 d); nfreqs_i = shape1 d; npols_i = shape2 d;
          tbins = \<lfloor>rdt / dt\<rfloor>
      in if tbins = 0 then Inl ZeroDivisionError
         else
           let ntimes = ntimes_i div tbins
           in if ntimes = 0 then Inl ZeroDivisionError
              else
                let tleftover = ntimes_i mod ntimes;
                    stop = (if tleftover \<noteq> 0 then - tleftover else ntimes_i);
                    kept = slice (cells d) 0 stop;
                    kept_times = slice times_unix 0 stop;
                    width = (ntimes_i - tleftover) div ntimes
                in if ntimes < 0 \<or> width < 0
                      \<or> int (length kept * nfreqs_i * npols_i)
                          \<noteq> ntimes * width * int (nfreqs_i * npols_i)
                      \<or> int (length kept_times) \<noteq> ntimes * width
                   then Inl ValueError
                   else Inr (\<lparr>shape0 = nat ntimes, shape1 = nfreqs_i, shape2 = npols_i,
                              cells = map (nanmean_rows nfreqs_i npols_i)
                                        (chop (nat ntimes) (nat width) kept)\<rparr>,
                             map mean (chop (nat ntimes) (nat width) kept_times)))"

text \<open>The frequency branch, for a bin width \<open>rdf\<close> and the lane's channel width \<open>df\<close>.\<close>

definition rebin_freq ::
  "real \<Rightarrow> real \<Rightarrow> darray \<Rightarrow> real list \<Rightarrow> error + darray \<times> real list" where
  "rebin_freq rdf df d freqs =
     (let ntimes_i = shape0 d; nfreqs_i = int (shape1 d); npols_i = shape2 d;
          fbins = \<lfloor>rdf / df\<rfloor>
      in if fbins = 0 then Inl ZeroDivisionError
         else
           let nfreqs = nfreqs_i div fbins
           in if nfreqs = 0 then Inl ZeroDivisionError
              else
                let fleftover = nfreqs_i mod nfreqs;
                    stop = (if fleftover \<noteq> 0 then - fleftover else nfreqs_i);
                    kept = map (\<lambda>row. slice row 0 stop) (cells d);
                    klen = slice_bound (shape1 d) stop - slice_bound (shape1 d) 0;
                    kept_freqs = slice freqs 0 stop;
                    width = (nfreqs_i - fleftover) div nfreqs
                in if nfreqs < 0 \<or> width < 0
                      \<or> int (ntimes_i * klen * npols_i)
                          \<noteq> int ntimes_i * nfreqs * width * int npols_i
                      \<or> int (length kept_freqs) \<noteq> nfreqs * width
                   then Inl ValueError
                   else Inr (\<lparr>shape0 = ntimes_i, shape1 = nat nfreqs, shape2 = npols_i,
                              cells =
                                map (\<lambda>row. map (nanmean_chunk npols_i)
                                            (chop (nat nfreqs) (nat width) row))
                                  kept\<rparr>,
                             map mean (chop (nat nfreqs) (nat width) kept_freqs)))"

text \<open>
  \<^verbatim>\<open>_rebin\<close>: time first, then frequency, each only when its width is not \<^verbatim>\<open>None\<close>. The
  result is the triple (data, times, freqs).
\<close>

definition rebin ::
  "dynspec \<Rightarrow> darray \<Rightarrow> real list \<Rightarrow> real list \<Rightarrow> real \<Rightarrow> real
     \<Rightarrow> error + darray \<times> real list \<times> real list" where
  "rebin ds d times_unix freqs dt df =
     (case (case rebin_dt ds of
              None \<Rightarrow> Inr (d, times_unix)
            | Some rdt \<Rightarrow> rebin_time rdt dt d times_unix) of
        Inl e \<Rightarrow> Inl e
      | Inr (d1, t1) \<Rightarrow>
          (case (case rebin_df ds of
                   None \<Rightarrow> Inr (d1, freqs)
                 | Some rdf \<Rightarrow> rebin_freq rdf df d1 freqs) of
             Inl e \<Rightarrow> Inl e
           | Inr (d2, f2) \<Rightarrow> Inr (d2, t1, f2)))"

subsection \<open>Lane files and the loader (\<open>_Lane.__init__\<close>, \<open>_Lane._load\<close>)\<close>

text \<open>
  The content of a lane file as \<^verbatim>\<open>_decode_header\<close> and \<^verbatim>\<open>_decode_data\<close> read it: the
  header, then the blocks, each a list of beamlets (one per subband) that hold the
  lane, beam and channel numbers and the arrays \<^verbatim>\<open>fft0\<close> and \<^verbatim>\<open>fft1\<close>, indexed
  (time sample, channel) with a pair for the last axis.
\<close>

record beamlet =
  b_lane :: int
  b_beam :: int
  b_channel :: int
  b_fft0 :: "(real \<times> real) list list"
  b_fft1 :: "(real \<times> real) list list"

record lane_file =
  file_header :: header
  file_blocks :: "beamlet list list"

text \<open>
  The operating system as the source sees it: \<^verbatim>\<open>os.path.abspath\<close>, and the regular
  files with their decoded content (\<^verbatim>\<open>isfile\<close> holds of the paths that have one).
\<close>

record os_env =
  os_abspath :: "string \<Rightarrow> string"
  os_files :: "string \<Rightarrow> lane_file option"

text \<open>
  \<^verbatim>\<open>_to2d\<close> on the six-dimensional cube (block, subband, time sample, channel, 2, 2):
  the subband and time-sample axes are swapped, the two halves of the channels of
  every beamlet are exchanged, and the blocks are laid end to end in time.
\<close>

definition swap_halves :: "nat \<Rightarrow> 'a list \<Rightarrow> 'a list" where
  "swap_halves n x = take (n div 2) (drop (n div 2) x) @ take (n div 2) x"

definition to2d :: "jones list list list list \<Rightarrow> nat \<Rightarrow> int \<Rightarrow> error + ejones" where
  "to2d cube n_ffte n_chan =
     (if n_chan mod 2 \<noteq> 0 then Inl ValueError
      else Inr (concat (map (\<lambda>block.
                  map (\<lambda>t. concat (map (\<lambda>sb. swap_halves (nat n_chan) (sb ! t)) block))
                    [0..<n_ffte])
                cube)))"

text \<open>\<^verbatim>\<open>_compute_times\<close>, \<^verbatim>\<open>_compute_frequencies\<close> and \<^verbatim>\<open>_sort_beam_edges\<close>.\<close>

definition compute_times :: "nat \<Rightarrow> real \<Rightarrow> nat \<Rightarrow> nat \<Rightarrow> real list" where
  "compute_times unix_start dt n_times block_seq_number =
     map (\<lambda>i. real i * dt + (real unix_start + real block_seq_number / 195312.5)) [0..<n_times]"

definition compute_frequencies :: "nat \<Rightarrow> nat \<Rightarrow> real \<Rightarrow> int list \<Rightarrow> real list" where
  "compute_frequencies n_chan n_subbands df subband_channels =
     (let subband_width = df * real n_chan
      in concat (map (\<lambda>s. map (\<lambda>k. (real k - real n_chan / 2) * df
                                      + real_of_int (subband_channels ! s) * subband_width)
                              [0..<n_chan])
                     [0..<n_subbands]))"

definition sort_beam_edges :: "int list \<Rightarrow> nat \<Rightarrow> (int \<times> nat \<times> nat) list" where
  "sort_beam_edges beam_array n_chan =
     map (\<lambda>b. let b_idx = filter (\<lambda>i. beam_array ! i = b) [0..<length beam_array]
              in (b, hd b_idx * n_chan, (last b_idx + 1) * n_chan))
         (sort (remdups beam_array))"

text \<open>
  \<^verbatim>\<open>_load\<close>, for the path the setter of \<^verbatim>\<open>lanefile\<close> has stored.
  numpy builds no record type for a negative dimension and the reshape of \<^verbatim>\<open>_to2d\<close>
  fails on a zero channel count, so such headers raise; \<^verbatim>\<open>data["channel"][0, :]\<close>
  raises on a file without a block, and \<^verbatim>\<open>np.min\<close> on one without a subband.
\<close>

definition load :: "string \<Rightarrow> lane_file \<Rightarrow> error + lane" where
  "load l f =
     (let h = file_header f; n_chan = fftlen h in
      if n_chan \<le> 0 \<or> nffte h < 0 \<or> nbchan h < 0 then Inl ValueError
      else
        (case to2d (map (map (\<lambda>b. map2 (map2 ejones_sample) (b_fft0 b) (b_fft1 b))) (file_blocks f))
                (nat (nffte h)) n_chan of
           Inl e \<Rightarrow> Inl e
         | Inr cube \<Rightarrow>
             (case file_blocks f of
                [] \<Rightarrow> Inl IndexError
              | block0 # _ \<Rightarrow>
                  let channels = map b_channel block0;
                      n_timeblocks = length (file_blocks f);
                      n_subbands = length block0
                  in if channels = [] then Inl ValueError
                     else Inr \<lparr>lanefile = l, lane_index = None, lane_data = cube,
                            data_shape = (n_timeblocks * nat (nffte h), n_subbands * nat n_chan),
                            time_unix = compute_times (TIMESTAMP h) (dt_of h)
                                          (n_timeblocks * nat (nffte h)) (BLOCKSEQNUMBER h),
                            frequency_hz = compute_frequencies (nat n_chan) n_subbands (df_of h) channels,
                            lane_dt = dt_of h, lane_df = df_of h, n_channels = nat n_chan,
                            beam_idx = sort_beam_edges (map b_beam block0) (nat n_chan),
                            lane_fmin = df_of h * real_of_int n_chan
                                          * (real_of_int (Min (set channels)) - 1 / 2),
                            lane_fmax = df_of h * real_of_int n_chan
                                          * (real_of_int (Max (set channels)) + 1 / 2)\<rparr>)))"

text \<open>
  The pattern \<^verbatim>\<open>_(?P<index>\d).spectra$\<close> of the setter of \<^verbatim>\<open>lanefile\<close>, on ASCII
  names: \<open>suffix_index\<close> matches it at the very end of the name, and \<open>findall_index\<close> is
  \<^verbatim>\<open>pattern.findall(l)\<close>, where \<^verbatim>\<open>$\<close> also matches before a final newline.
\<close>

definition digit_of :: "char \<Rightarrow> nat option" where
  "digit_of c = map_of (zip ''0123456789'' [0..<10]) c"

definition suffix_index :: "string \<Rightarrow> nat option" where
  "suffix_index l =
     (if length l < 10 then None
      else
        let tail = drop (length l - 10) l
        in if tail ! 0 = CHR ''_'' \<and> tail ! 2 \<noteq> CHR 0x0A \<and> drop 3 tail = ''spectra''
           then digit_of (tail ! 1) else None)"

definition findall_index :: "string \<Rightarrow> nat list" where
  "findall_index l =
     (case suffix_index l of
        Some i \<Rightarrow> [i]
      | None \<Rightarrow>
          (if l \<noteq> [] \<and> last l = CHR 0x0A
           then (case suffix_index (butlast l) of Some i \<Rightarrow> [i] | None \<Rightarrow> [])
           else []))"

text \<open>
  \<^verbatim>\<open>_Lane(lanefile)\<close>: the setter of \<^verbatim>\<open>lanefile\<close>, which raises unless the name holds one
  lane index, then \<^verbatim>\<open>_load\<close>.
\<close>

definition new_lane :: "os_env \<Rightarrow> string \<Rightarrow> error + lane" where
  "new_lane env path =
     (let l = os_abspath env path in
      case os_files env l of
        None \<Rightarrow> Inl FileNotFoundError
      | Some f \<Rightarrow>
          (case findall_index l of
             [index] \<Rightarrow> load l f
           | _ \<Rightarrow> Inl ValueError))"

subsection \<open>Attaching lanes (\<open>Dynspec.lanefiles\<close>, \<open>Dynspec.__init__\<close>)\<close>

text \<open>The value assigned to \<^verbatim>\<open>lanefiles\<close>: a list of names, or anything else, taken as one name.\<close>

datatype pyfiles = FileList "string list" | OneFile string

text \<open>\<^verbatim>\<open>if not isinstance(l, list): l = [l]\<close>.\<close>

definition as_list :: "pyfiles \<Rightarrow> string list" where
  "as_list l = (case l of FileList xs \<Rightarrow> xs | OneFile x \<Rightarrow> [x])"

text \<open>
  The loop of the setter over the names. It appends to \<^verbatim>\<open>self.lanes\<close> in place, so the
  lanes appended before an exception stay: the result is the list of lanes and the
  exception, if one was raised.
\<close>

fun append_lanes :: "os_env \<Rightarrow> string list \<Rightarrow> lane list \<Rightarrow> lane list \<times> error option" where
  "append_lanes env [] ls = (ls, None)"
| "append_lanes env (li # rest) ls =
     (case os_files env li of
        None \<Rightarrow> (ls, Some FileNotFoundError)
      | Some f \<Rightarrow>
          (case new_lane env li of
             Inl e \<Rightarrow> (ls, Some e)
           | Inr lane_i \<Rightarrow> append_lanes env rest (ls @ [lane_i])))"

text \<open>
  The setter of \<^verbatim>\<open>lanefiles\<close>. The check that the files belong to one observation is
  commented out in the source, so no step of the model compares the names.
\<close>

definition set_lanefiles :: "os_env \<Rightarrow> dynspec \<Rightarrow> pyfiles \<Rightarrow> dynspec \<times> error option" where
  "set_lanefiles env ds l =
     (let l2 = map (os_abspath env) (as_list l)
      in case append_lanes env (map (os_abspath env) l2) (lanes ds) of
           (ls, Some e) \<Rightarrow> (ds\<lparr>lanes := ls\<rparr>, Some e)
         | (ls, None) \<Rightarrow> (ds\<lparr>lanes := ls, lanefiles := l2\<rparr>, None))"

subsection \<open>Global extents and the beam (\<open>tmin\<close>, \<open>tmax\<close>, \<open>time_range\<close>, \<open>beams\<close>, \<open>beam\<close>)\<close>

text \<open>Evaluating a generator: the results in order, or the first exception.\<close>

fun collect :: "('a \<Rightarrow> error + 'b) \<Rightarrow> 'a list \<Rightarrow> error + 'b list" where
  "collect g [] = Inr []"
| "collect g (x # xs) =
     (case g x of
        Inl e \<Rightarrow> Inl e
      | Inr y \<Rightarrow> (case collect g xs of Inl e \<Rightarrow> Inl e | Inr ys \<Rightarrow> Inr (y # ys)))"

text \<open>\<^verbatim>\<open>_Lane.tmin\<close> and \<^verbatim>\<open>_Lane.tmax\<close>: \<^verbatim>\<open>time_unix[0]\<close> and \<^verbatim>\<open>time_unix[-1]\<close>.\<close>

definition lane_tmin :: "lane \<Rightarrow> error + real" where
  "lane_tmin li = (case time_unix li of [] \<Rightarrow> Inl IndexError | t # ts \<Rightarrow> Inr t)"

definition lane_tmax :: "lane \<Rightarrow> error + real" where
  "lane_tmax li = (case time_unix li of [] \<Rightarrow> Inl IndexError | t # ts \<Rightarrow> Inr (last (t # ts)))"

definition ds_tmin :: "dynspec \<Rightarrow> error + real" where
  "ds_tmin ds =
     (case collect lane_tmin (lanes ds) of
        Inl e \<Rightarrow> Inl e
      | Inr [] \<Rightarrow> Inl ValueError
      | Inr (t # ts) \<Rightarrow> Inr (fold min ts t))"

definition ds_tmax :: "dynspec \<Rightarrow> error + real" where
  "ds_tmax ds =
     (case collect lane_tmax (lanes ds) of
        Inl e \<Rightarrow> Inl e
      | Inr [] \<Rightarrow> Inl ValueError
      | Inr (t # ts) \<Rightarrow> Inr (fold max ts t))"

text \<open>The getter of \<^verbatim>\<open>time_range\<close>: the selection, or the whole observation while none is set.\<close>

definition time_range :: "dynspec \<Rightarrow> error + real \<times> real" where
  "time_range ds =
     (case time_range_sel ds of
        Some r \<Rightarrow> Inr r
      | None \<Rightarrow>
          (case ds_tmin ds of
             Inl e \<Rightarrow> Inl e
           | Inr lo \<Rightarrow> (case ds_tmax ds of Inl e \<Rightarrow> Inl e | Inr hi \<Rightarrow> Inr (lo, hi))))"

text \<open>\<^verbatim>\<open>Dynspec.beams\<close>: the sorted beam numbers of all lanes, without repetition.\<close>

definition beams :: "dynspec \<Rightarrow> int list" where
  "beams ds = sort (remdups (concat (map (\<lambda>li. map fst (beam_idx li)) (lanes ds))))"

text \<open>The setter of \<^verbatim>\<open>beam\<close>: an absent beam falls back to the smallest one, with a warning.\<close>

definition set_beam :: "dynspec \<Rightarrow> pyval \<Rightarrow> error + dynspec \<times> log_level list" where
  "set_beam ds b =
     (case b of
        PyInt k \<Rightarrow>
          (if k \<in> set (beams ds) then Inr (ds\<lparr>beam := k\<rparr>, [INFO])
           else (case beams ds of
                   [] \<Rightarrow> Inl IndexError
                 | b0 # bs \<Rightarrow> Inr (ds\<lparr>beam := b0\<rparr>, [WARNING, INFO])))
      | _ \<Rightarrow> Inl TypeError)"

text \<open>
  \<^verbatim>\<open>Dynspec.__init__\<close>: the lanes start empty, the files are assigned, the extents are
  logged (which evaluates them), and the other attributes get their defaults through
  their setters. An exception leaves no object.
\<close>

definition dynspec_init :: "os_env \<Rightarrow> pyfiles \<Rightarrow> error + dynspec" where
  "dynspec_init env files =
     (let ds0 = \<lparr>lanes = [], lanefiles = [], time_range_sel = None, freq_range_sel = None,
                 beam = 0, dispersion_measure = None, rebin_dt = None, rebin_df = None,
                 jump_correction = False, bp_correction = ''none'',
                 edge_channels_to_remove = 0, freq_flat = False, clean_rfi = False\<rparr>
      in case set_lanefiles env ds0 files of
           (ds1, Some e) \<Rightarrow> Inl e
         | (ds1, None) \<Rightarrow>
             (case ds_tmin ds1 of Inl e \<Rightarrow> Inl e | Inr t0 \<Rightarrow>
              case ds_tmax ds1 of Inl e \<Rightarrow> Inl e | Inr t1 \<Rightarrow>
              case ds_fmin ds1 of Inl e \<Rightarrow> Inl e | Inr f0 \<Rightarrow>
              case ds_fmax ds1 of Inl e \<Rightarrow> Inl e | Inr f1 \<Rightarrow>
              case set_beam ds1 (PyInt 0) of Inl e \<Rightarrow> Inl e | Inr (ds2, w2) \<Rightarrow>
              case set_edge_channels_to_remove ds2 (PyInt 0) of
                Inl e \<Rightarrow> Inl e
              | Inr (ds3, w3) \<Rightarrow> Inr ds3))"

subsection \<open>Selection and retrieval (\<open>Dynspec.get\<close>)\<close>

text \<open>\<^verbatim>\<open>np.argmin\<close>: the first index of the least entry; it raises on an empty array.\<close>

fun argmin_from :: "nat \<Rightarrow> real \<Rightarrow> nat \<Rightarrow> real list \<Rightarrow> nat" where
  "argmin_from bi bv i [] = bi"
| "argmin_from bi bv i (v # vs) =
     (if v < bv then argmin_from i v (Suc i) vs else argmin_from bi bv (Suc i) vs)"

definition argmin :: "real list \<Rightarrow> error + nat" where
  "argmin xs = (case xs of [] \<Rightarrow> Inl ValueError | v # vs \<Rightarrow> Inr (argmin_from 0 v 1 vs))"

text \<open>
  The index computations of one pass of the loop of \<^verbatim>\<open>get\<close>, for a lane that has the
  beam at \<open>(beam_start, beam_stop)\<close>: \<open>None\<close> is the \<^verbatim>\<open>continue\<close> of an empty frequency
  selection, otherwise the result is \<open>(tmin_idx, tmax_idx, fmin_idx, fmax_idx)\<close> with
  the frequency indices already moved to the subband boundaries. \<open>raw_freq_idx\<close> gives
  the two frequency indices before that. The indices are numpy integers, whose
  \<^verbatim>\<open>//\<close> by zero is 0 as \<open>div\<close> by zero is.
\<close>

definition raw_freq_idx :: "dynspec \<Rightarrow> lane \<Rightarrow> nat \<Rightarrow> nat \<Rightarrow> error + nat \<times> nat" where
  "raw_freq_idx ds li beam_start beam_stop =
     (case freq_range ds of
        Inl e \<Rightarrow> Inl e
      | Inr (f0, f1) \<Rightarrow>
          let beam_freqs = slice (frequency_hz li) (int beam_start) (int beam_stop)
          in (case argmin (map (\<lambda>f. \<bar>f - f0\<bar>) beam_freqs) of
                Inl e \<Rightarrow> Inl e
              | Inr fmin_idx \<Rightarrow>
                  (case argmin (map (\<lambda>f. \<bar>f - f1\<bar>) beam_freqs) of
                     Inl e \<Rightarrow> Inl e
                   | Inr fmax_idx \<Rightarrow> Inr (fmin_idx, fmax_idx))))"

definition lane_select ::
  "dynspec \<Rightarrow> lane \<Rightarrow> nat \<Rightarrow> nat \<Rightarrow> error + (nat \<times> nat \<times> nat \<times> nat) option" where
  "lane_select ds li beam_start beam_stop =
     (case time_range ds of
        Inl e \<Rightarrow> Inl e
      | Inr (t0, t1) \<Rightarrow>
          (case argmin (map (\<lambda>t. \<bar>t - t0\<bar>) (time_unix li)) of
             Inl e \<Rightarrow> Inl e
           | Inr tmin_idx \<Rightarrow>
               (case argmin (map (\<lambda>t. \<bar>t - t1\<bar>) (time_unix li)) of
                  Inl e \<Rightarrow> Inl e
                | Inr tmax_idx \<Rightarrow>
                    (case raw_freq_idx ds li beam_start beam_stop of
                       Inl e \<Rightarrow> Inl e
                     | Inr (fmin_idx, fmax_idx) \<Rightarrow>
                         if int fmin_idx - int fmax_idx = 0 then Inr None
                         else Inr (Some (tmin_idx, tmax_idx,
                                 (fmin_idx div n_channels li) * n_channels li,
                                 (fmax_idx div n_channels li + 1) * n_channels li))))))"

text \<open>
  The Stokes array of a lane with its shape, and the selection cut out of it:
  \<^verbatim>\<open>data[:, beam_start:beam_stop][tmin_idx:tmax_idx, fmin_idx:fmax_idx]\<close>, with the
  frequencies and times cut the same way.
\<close>

definition stokes_array :: "lane \<Rightarrow> string \<Rightarrow> error + darray option" where
  "stokes_array li stokes =
     (case get_stokes (lane_data li) stokes of
        Inl e \<Rightarrow> Inl e
      | Inr None \<Rightarrow> Inr None
      | Inr (Some cs) \<Rightarrow>
          Inr (Some \<lparr>shape0 = fst (data_shape li), shape1 = snd (data_shape li),
                     shape2 = length stokes, cells = map (map (map Some)) cs\<rparr>))"

definition slice_len :: "nat \<Rightarrow> int \<Rightarrow> int \<Rightarrow> nat" where
  "slice_len n a b = slice_bound n b - slice_bound n a"

definition select_data :: "darray \<Rightarrow> nat \<times> nat \<Rightarrow> nat \<times> nat \<times> nat \<times> nat \<Rightarrow> darray" where
  "select_data d bm sel =
     (case (bm, sel) of
        ((beam_start, beam_stop), (tmin_idx, tmax_idx, fmin_idx, fmax_idx)) \<Rightarrow>
          \<lparr>shape0 = slice_len (shape0 d) (int tmin_idx) (int tmax_idx),
           shape1 = slice_len (slice_len (shape1 d) (int beam_start) (int beam_stop))
                      (int fmin_idx) (int fmax_idx),
           shape2 = shape2 d,
           cells = map (\<lambda>row. slice (slice row (int beam_start) (int beam_stop))
                                (int fmin_idx) (int fmax_idx))
                     (slice (cells d) (int tmin_idx) (int tmax_idx))\<rparr>)"

definition select_freqs :: "lane \<Rightarrow> nat \<times> nat \<Rightarrow> nat \<times> nat \<times> nat \<times> nat \<Rightarrow> real list" where
  "select_freqs li bm sel =
     (case (bm, sel) of
        ((beam_start, beam_stop), (tmin_idx, tmax_idx, fmin_idx, fmax_idx)) \<Rightarrow>
          slice (slice (frequency_hz li) (int beam_start) (int beam_stop))
            (int fmin_idx) (int fmax_idx))"

definition select_times :: "lane \<Rightarrow> nat \<times> nat \<times> nat \<times> nat \<Rightarrow> real list" where
  "select_times li sel =
     (case sel of (tmin_idx, tmax_idx, fmin_idx, fmax_idx) \<Rightarrow>
        slice (time_unix li) (int tmin_idx) (int tmax_idx))"

text \<open>
  Modelled from the spec: \<^verbatim>\<open>nenupy.beamlet.SData\<close>, whose source is not among the files.
  The result product is a dense array with its time axis, its frequency axis and its
  polarization labels.
\<close>

record sdata =
  sd_data :: darray
  sd_time :: "real list"
  sd_freq :: "real list"
  sd_polar :: string

text \<open>
  What \<^verbatim>\<open>get\<close> calls and this file does not define, as parameters: the dispersion
  delay, the numerical kernels of \<^verbatim>\<open>_bp_correct\<close> in its three active modes (the
  transform of the filter coefficients, the medians) and of \<^verbatim>\<open>_correct_jumps\<close> (the
  least-squares fit), and the operator \<^verbatim>\<open>&\<close> of \<^verbatim>\<open>SData\<close>. Each may raise.
\<close>

record externals =
  dispersion_delay :: "real \<Rightarrow> real \<Rightarrow> real"
  bandpass_kernel :: "string \<Rightarrow> nat \<Rightarrow> darray \<Rightarrow> error + darray"
  jumps_kernel :: "darray \<Rightarrow> real \<Rightarrow> error + darray"
  sdata_and :: "sdata \<Rightarrow> sdata \<Rightarrow> error + sdata"

text \<open>\<^verbatim>\<open>_bp_correct\<close>, \<^verbatim>\<open>_clean\<close> and \<^verbatim>\<open>_correct_jumps\<close>: the branches that return the data as they are.\<close>

definition bp_correct :: "externals \<Rightarrow> dynspec \<Rightarrow> darray \<Rightarrow> nat \<Rightarrow> error + darray" where
  "bp_correct ext ds d n_chan =
     (if bp_correction ds = ''standard'' then bandpass_kernel ext ''standard'' n_chan d
      else if bp_correction ds = ''median'' then bandpass_kernel ext ''median'' n_chan d
      else if bp_correction ds = ''adjusted'' then bandpass_kernel ext ''adjusted'' n_chan d
      else Inr d)"

definition clean :: "dynspec \<Rightarrow> darray \<Rightarrow> darray" where
  "clean ds d = (if clean_rfi ds then d else d)"

definition correct_jumps :: "externals \<Rightarrow> dynspec \<Rightarrow> darray \<Rightarrow> real \<Rightarrow> error + darray" where
  "correct_jumps ext ds d dt = (if \<not> jump_correction ds then Inr d else jumps_kernel ext d dt)"

text \<open>The stages of one pass, in the order of the source, on the selection of one lane.\<close>

definition pipeline ::
  "externals \<Rightarrow> dynspec \<Rightarrow> lane \<Rightarrow> string \<Rightarrow> darray \<Rightarrow> real list \<Rightarrow> real list \<Rightarrow> error + sdata" where
  "pipeline ext ds li stokes d0 freqs0 times0 =
     (case bp_correct ext ds d0 (n_channels li) of
        Inl e \<Rightarrow> Inl e
      | Inr d1 \<Rightarrow>
     (case remove_edge_channels ds d1 of
        Inl e \<Rightarrow> Inl e
      | Inr d2 \<Rightarrow>
     (case correct_jumps ext ds (clean ds d2) (lane_dt li) of
        Inl e \<Rightarrow> Inl e
      | Inr d4 \<Rightarrow>
     (case dedisperse (dispersion_delay ext) ds d4 freqs0 (lane_dt li) of
        Inl e \<Rightarrow> Inl e
      | Inr d5 \<Rightarrow>
     (case rebin ds d5 times0 freqs0 (lane_dt li) (lane_df li) of
        Inl e \<Rightarrow> Inl e
      | Inr (d6, seltimes, selfreqs) \<Rightarrow>
          Inr \<lparr>sd_data = d6, sd_time = seltimes, sd_freq = selfreqs, sd_polar = stokes\<rparr>)))))"

text \<open>
  One pass of the loop of \<^verbatim>\<open>get\<close>: \<open>Inr None\<close> is a \<^verbatim>\<open>continue\<close>, \<open>Inr (Some sd)\<close> the
  \<^verbatim>\<open>SData\<close> of the lane. A request without a letter leaves \<^verbatim>\<open>data\<close> at \<^verbatim>\<open>None\<close>, which
  the slicing rejects.
\<close>

definition get_lane :: "externals \<Rightarrow> dynspec \<Rightarrow> lane \<Rightarrow> string \<Rightarrow> error + sdata option" where
  "get_lane ext ds li stokes =
     (case map_of (beam_idx li) (beam ds) of
        None \<Rightarrow> Inr None
      | Some bm \<Rightarrow>
          (case stokes_array li stokes of
             Inl e \<Rightarrow> Inl e
           | Inr arr \<Rightarrow>
               (case lane_select ds li (fst bm) (snd bm) of
                  Inl e \<Rightarrow> Inl e
                | Inr None \<Rightarrow> Inr None
                | Inr (Some sel) \<Rightarrow>
                    (case arr of
                       None \<Rightarrow> Inl TypeError
                     | Some d \<Rightarrow>
                         (case pipeline ext ds li stokes (select_data d bm sel)
                                 (select_freqs li bm sel) (select_times li sel) of
                            Inl e \<Rightarrow> Inl e
                          | Inr sd \<Rightarrow> Inr (Some sd))))))"

text \<open>
  The loop over the lanes, with the variable \<^verbatim>\<open>spec\<close> as accumulator (\<open>None\<close> while it
  is unbound), and \<^verbatim>\<open>get\<close>: \<^verbatim>\<open>return spec\<close> raises when no pass has bound it.
\<close>

fun get_loop ::
  "externals \<Rightarrow> dynspec \<Rightarrow> string \<Rightarrow> lane list \<Rightarrow> sdata option \<Rightarrow> error + sdata option" where
  "get_loop ext ds stokes [] spec = Inr spec"
| "get_loop ext ds stokes (li # rest) spec =
     (case get_lane ext ds li stokes of
        Inl e \<Rightarrow> Inl e
      | Inr None \<Rightarrow> get_loop ext ds stokes rest spec
      | Inr (Some sd) \<Rightarrow>
          (case spec of
             None \<Rightarrow> get_loop ext ds stokes rest (Some sd)
           | Some sp \<Rightarrow>
               (case sdata_and ext sp sd of
                  Inl e \<Rightarrow> Inl e
                | Inr sp' \<Rightarrow> get_loop ext ds stokes rest (Some sp'))))"

definition get :: "externals \<Rightarrow> dynspec \<Rightarrow> string \<Rightarrow> error + sdata" where
  "get ext ds stokes =
     (case get_loop ext ds stokes (lanes ds) None of
        Inl e \<Rightarrow> Inl e
      | Inr None \<Rightarrow> Inl UnboundLocalError
      | Inr (Some spec) \<Rightarrow> Inr spec)"

subsection \<open>Example inputs\<close>

text \<open>A header with 16 channels per subband and 4 integrated spectra.\<close>

definition header16 :: header where
  "header16 = \<lparr>idx = 0, TIMESTAMP = 0, BLOCKSEQNUMBER = 0, fftlen = 16, nfft2int = 4,
     fftovlp = 0, apodisation = 0, nffte = 8, nbchan = 2\<rparr>"

text \<open>A lane with 16 channels per subband, and an observation made of it alone.\<close>

definition lane16 :: lane where
  "lane16 = \<lparr>lanefile = ''/obs/A_0.spectra'', lane_index = None, lane_data = [],
     data_shape = (0, 0), time_unix = [],
     frequency_hz = [], lane_dt = dt_of header16, lane_df = df_of header16, n_channels = 16,
     beam_idx = [], lane_fmin = 0, lane_fmax = 0\<rparr>"

definition dynspec16 :: dynspec where
  "dynspec16 = \<lparr>lanes = [lane16], lanefiles = [''/obs/A_0.spectra''], time_range_sel = None,
     freq_range_sel = None, beam = 0, dispersion_measure = None, rebin_dt = None,
     rebin_df = None, jump_correction = False, bp_correction = ''none'',
     edge_channels_to_remove = 0, freq_flat = False, clean_rfi = False\<rparr>"

text \<open>An array of ones, and a single-channel, single-polarization ramp \<open>0, 1, 2, \<dots>\<close> in time.\<close>

definition ones :: "nat \<Rightarrow> nat \<Rightarrow> nat \<Rightarrow> darray" where
  "ones nt nf np = \<lparr>shape0 = nt, shape1 = nf, shape2 = np,
     cells = replicate nt (replicate nf (replicate np (Some 1)))\<rparr>"

definition ramp :: "nat \<Rightarrow> darray" where
  "ramp n = \<lparr>shape0 = n, shape1 = 1, shape2 = 1,
     cells = map (\<lambda>t. [[Some (real t)]]) [0..<n]\<rparr>"

text \<open>
  An instance of the parameter \<open>dispersion_delay\<close> for the examples: the cold-plasma
  law, \<open>4148.808 s * DM / (f / MHz)\<^sup>2\<close> for a frequency in Hz and a dispersion measure
  in \<open>pc/cm\<^sup>3\<close>. The theorems on \<open>dedisperse\<close> hold for every function in its place.
\<close>

definition example_delay :: "real \<Rightarrow> real \<Rightarrow> real" where
  "example_delay f dm = 4148.808 * dm / (f / 10 ^ 6) ^ 2"


text \<open>
  A 3 x 2 x 1 array of distinct samples; the two top channels of the subband number 409
  of a 16-channel lane, whose upper edge is 79980468.75 Hz; and the 16-channel
  observation with a dispersion measure and that subband selected.
\<close>

definition grid3x2 :: darray where
  "grid3x2 = \<lparr>shape0 = 3, shape1 = 2, shape2 = 1,
     cells = [[[Some 1], [Some 2]], [[Some 3], [Some 4]], [[Some 5], [Some 6]]]\<rparr>"

definition top_freqs :: "real list" where
  "top_freqs = [79980468.75 - 2 * df_of header16, 79980468.75 - df_of header16]"

definition dynspec_dm :: "real \<Rightarrow> dynspec" where
  "dynspec_dm dm = dynspec16\<lparr>dispersion_measure := Some dm,
     freq_range_sel := Some (79980468.75 - 16 * df_of header16, 79980468.75)\<rparr>"

text \<open>
  Two lane files of different observations, \<open>A\<close> and \<open>B\<close>: four channels per subband and
  two time samples per block, one block each; \<open>A\<close> holds beam 0 on the subbands 200 and
  201, \<open>B\<close> holds beam 1 on the subband 202. The samples are \<open>XX = 3\<close>, \<open>YY = 5\<close> with no
  cross term. \<open>env0\<close> is a file system with the two files, and \<open>ext0\<close> an instance of the
  parameters of \<open>get\<close> whose kernels return their input and whose \<^verbatim>\<open>&\<close> joins two
  products along the frequency axis.
\<close>

definition header4 :: "int \<Rightarrow> header" where
  "header4 nsub = \<lparr>idx = 0, TIMESTAMP = 100, BLOCKSEQNUMBER = 0, fftlen = 4, nfft2int = 4,
     fftovlp = 0, apodisation = 0, nffte = 2, nbchan = nsub\<rparr>"

definition beamlet4 :: "int \<Rightarrow> int \<Rightarrow> int \<Rightarrow> beamlet" where
  "beamlet4 lane_no beam_no chan_no = \<lparr>b_lane = lane_no, b_beam = beam_no, b_channel = chan_no,
     b_fft0 = replicate 2 (replicate 4 (3, 5)), b_fft1 = replicate 2 (replicate 4 (0, 0))\<rparr>"

definition file_a :: lane_file where
  "file_a = \<lparr>file_header = header4 2, file_blocks = [[beamlet4 0 0 200, beamlet4 0 0 201]]\<rparr>"

definition file_b :: lane_file where
  "file_b = \<lparr>file_header = header4 1, file_blocks = [[beamlet4 1 1 202]]\<rparr>"

definition env0 :: os_env where
  "env0 = \<lparr>os_abspath = (\<lambda>p. p),
     os_files = map_of [(''/obs/A_0.spectra'', file_a), (''/obs/B_1.spectra'', file_b)]\<rparr>"

definition ext0 :: externals where
  "ext0 = \<lparr>dispersion_delay = example_delay,
     bandpass_kernel = (\<lambda>mode n d. Inr d), jumps_kernel = (\<lambda>d dt. Inr d),
     sdata_and = (\<lambda>a b. Inr (a\<lparr>sd_data := (sd_data a)\<lparr>shape1 := shape1 (sd_data a) + shape1 (sd_data b),
                               cells := map2 (@) (cells (sd_data a)) (cells (sd_data b))\<rparr>,
                               sd_freq := sd_freq a @ sd_freq b\<rparr>))\<rparr>"

text \<open>The two names, and the observation the constructor builds from them.\<close>

definition files_ab :: "string list" where
  "files_ab = [''/obs/A_0.spectra'', ''/obs/B_1.spectra'']"

definition dynspec_ab :: dynspec where
  "dynspec_ab = projr (dynspec_init env0 (FileList files_ab))"

text \<open>
  The lane of the file \<open>A\<close>, a selection that starts and stops inside its subbands, and
  the Stokes I array of the lane.
\<close>

definition lane_a :: lane where
  "lane_a = lanes dynspec_ab ! 0"

definition dynspec_sel :: dynspec where
  "dynspec_sel = dynspec_ab\<lparr>freq_range_sel := Some (39020000, 39200000)\<rparr>"

definition stokes_a :: darray where
  "stokes_a = the (projr (stokes_array lane_a ''I''))"





section \<open>Theorems\<close>

subsection \<open>Native resolutions\<close>


text \<open>
  C5 (as amended). For every header with a non-zero \<open>fftlen\<close>, the native resolutions
  computed at load time satisfy \<open>dt * df = nfft2int\<close>, hence
  \<open>dt * df * fftlen = nfft2int * fftlen\<close>; the product is not 1.
\<close>

theorem C5_resolution_product:
  "fftlen h \<noteq> 0 \<Longrightarrow>
     dt_of h * df_of h = real_of_int (nfft2int h) \<and>
     dt_of h * df_of h * real_of_int (fftlen h) = real_of_int (nfft2int h * fftlen h)"
  by (simp add: dt_of_def df_of_def)

theorem C5_resolution_product_witness:
  "fftlen header16 \<noteq> 0 \<and> dt_of header16 * df_of header16 = 4 \<and>
   dt_of header16 * df_of header16 * real_of_int (fftlen header16) = 64"
  using C5_resolution_product [of header16] by (simp add: header16_def)

text \<open>
  C5 as stated fails: with \<open>fftlen = 16\<close> (even) and \<open>nfft2int = 4\<close> the product
  \<open>dt * df * fftlen\<close> is 64, further than any rounding tolerance from 1.
\<close>

theorem C5_counterexample:
  "even (fftlen header16) \<and>
   dt_of header16 * df_of header16 * real_of_int (fftlen header16) = 64 \<and>
   \<not> \<bar>dt_of header16 * df_of header16 * real_of_int (fftlen header16) - 1\<bar> \<le> 1 / 2"
  by (simp add: header16_def dt_of_def df_of_def)

subsection \<open>Stokes parameters\<close>

lemma map2_same_shape:
  "map2 (map2 (\<lambda>cell v. cell @ [v])) (map (map F) data) (map (map G) data) =
     map (map (\<lambda>m. F m @ [G m])) data"
  by (induction data) (auto simp: zip_map_map zip_same_conv_map)

lemma stokes_plane_known:
  "known_stokes c \<Longrightarrow> stokes_plane c data = Inr (map (map (stokes_formula c)) data)"
  by (auto simp: known_stokes_def stokes_plane_def stokes_formula_def mult.commute)

lemma stokes_plane_unknown:
  "\<not> known_stokes c \<Longrightarrow> stokes_plane c data = Inl NotImplementedError"
  by (auto simp: known_stokes_def stokes_plane_def)

lemma get_stokes_loop_acc:
  "list_all known_stokes stokes \<Longrightarrow>
   get_stokes_loop stokes data (Some (map (map (\<lambda>m. map (\<lambda>c. stokes_formula c m) pre)) data))
     = Inr (Some (map (map (\<lambda>m. map (\<lambda>c. stokes_formula c m) (pre @ stokes))) data))"
proof (induction stokes arbitrary: pre)
  case Nil
  then show ?case by simp
next
  case (Cons c cs)
  have k: "known_stokes c" and ks: "list_all known_stokes cs"
    using Cons.prems by simp_all
  have step: "map2 (map2 (\<lambda>cell v. cell @ [v]))
        (map (map (\<lambda>m. map (\<lambda>c. stokes_formula c m) pre)) data)
        (map (map (stokes_formula c)) data)
      = map (map (\<lambda>m. map (\<lambda>c. stokes_formula c m) (pre @ [c]))) data"
    by (simp add: map2_same_shape)
  show ?case
    using Cons.IH [OF ks, of "pre @ [c]"]
    by (simp add: stokes_plane_known [OF k] step del: map_append)
qed

lemma get_stokes_known:
  assumes "stokes \<noteq> []" and "list_all known_stokes stokes"
  shows "get_stokes data stokes =
    Inr (Some (map (map (\<lambda>m. map (\<lambda>c. stokes_formula c m) stokes)) data))"
proof -
  obtain c cs where s: "stokes = c # cs"
    using assms(1) by (cases stokes) auto
  have k: "known_stokes c" and ks: "list_all known_stokes cs"
    using assms(2) s by simp_all
  have first: "map (map (\<lambda>v. [v])) (map (map (stokes_formula c)) data)
      = map (map (\<lambda>m. map (\<lambda>c. stokes_formula c m) [c])) data"
    by simp
  have "get_stokes data stokes =
      get_stokes_loop cs data (Some (map (map (\<lambda>v. [v])) (map (map (stokes_formula c)) data)))"
    by (simp add: get_stokes_def s stokes_plane_known [OF k] del: map_map)
  also have "\<dots> =
      get_stokes_loop cs data (Some (map (map (\<lambda>m. map (\<lambda>c. stokes_formula c m) [c])) data))"
    by (simp only: first)
  also have "\<dots> = Inr (Some (map (map (\<lambda>m. map (\<lambda>c. stokes_formula c m) ([c] @ cs))) data))"
    by (rule get_stokes_loop_acc [OF ks])
  finally show ?thesis
    by (simp add: s)
qed

lemma ejones_sample_fields:
  "m00 (ejones_sample (xx, yy) (re, im)) = complex_of_real xx"
  "m11 (ejones_sample (xx, yy) (re, im)) = complex_of_real yy"
  "m01 (ejones_sample (xx, yy) (re, im)) = Complex re im"
  "m10 (ejones_sample (xx, yy) (re, im)) = Complex re (- im)"
  by (simp_all add: ejones_sample_def Let_def complex_eq_iff)

lemma stokes_formula_raw:
  "stokes_formula (CHR ''I'') (ejones_sample (xx, yy) (re, im)) = xx + yy"
  "stokes_formula (CHR ''Q'') (ejones_sample (xx, yy) (re, im)) = xx - yy"
  "stokes_formula (CHR ''U'') (ejones_sample (xx, yy) (re, im)) = 2 * re"
  "stokes_formula (CHR ''V'') (ejones_sample (xx, yy) (re, im)) = 2 * im"
  by (simp_all add: stokes_formula_def ejones_sample_fields upper_def)

lemma to_ejones_replicate:
  "to_ejones (replicate nt (replicate nf a)) (replicate nt (replicate nf b)) =
     replicate nt (replicate nf (ejones_sample a b))"
  by (simp add: to_ejones_def zip_replicate map_replicate)

text \<open>
  C4. For a non-empty request made of the letters I, Q, U, V in either case,
  \<open>get_stokes\<close> returns, at every (time, frequency) sample, the list of the requested
  parameters in request order, each computed by the specification's formula from the
  sample's 2x2 matrix. On a matrix assembled by \<open>_to_ejones\<close> from \<open>fft0 = (XX, YY)\<close> and
  \<open>fft1 = (Re, Im)\<close> the four parameters are \<open>XX + YY\<close>, \<open>XX - YY\<close>, \<open>2 Re\<close> and \<open>2 Im\<close>. On
  synthetic data with \<open>XX = 3\<close>, \<open>YY = 5\<close> and zero cross terms, of any extent, Stokes I is 8
  and Stokes Q is -2 at every sample.
\<close>

theorem C4_get_stokes:
  assumes "stokes \<noteq> []" and "list_all known_stokes stokes"
  shows "get_stokes data stokes =
           Inr (Some (map (map (\<lambda>m. map (\<lambda>c. stokes_formula c m) stokes)) data))
       \<and> stokes_formula (CHR ''I'') (ejones_sample (xx, yy) (re, im)) = xx + yy
       \<and> stokes_formula (CHR ''Q'') (ejones_sample (xx, yy) (re, im)) = xx - yy
       \<and> stokes_formula (CHR ''U'') (ejones_sample (xx, yy) (re, im)) = 2 * re
       \<and> stokes_formula (CHR ''V'') (ejones_sample (xx, yy) (re, im)) = 2 * im
       \<and> get_stokes (to_ejones (replicate nt (replicate nf (3, 5)))
                               (replicate nt (replicate nf (0, 0)))) ''IQ''
           = Inr (Some (replicate nt (replicate nf [8, - 2])))"
  using assms
  by (simp add: get_stokes_known stokes_formula_raw to_ejones_replicate known_stokes_def upper_def)

theorem C4_get_stokes_witness:
  "''qI'' \<noteq> [] \<and> list_all known_stokes ''qI'' \<and>
   get_stokes (to_ejones [[(3, 5), (7, 2)]] [[(0, 0), (1, 4)]]) ''qI'' =
     Inr (Some [[[- 2, 8], [5, 9]]]) \<and>
   get_stokes (to_ejones [[(3, 5), (7, 2)]] [[(0, 0), (1, 4)]]) ''uV'' =
     Inr (Some [[[0, 0], [2, 8]]])"
  using C4_get_stokes [of "''qI''" "to_ejones [[(3, 5), (7, 2)]] [[(0, 0), (1, 4)]]"]
        C4_get_stokes [of "''uV''" "to_ejones [[(3, 5), (7, 2)]] [[(0, 0), (1, 4)]]"]
  by (simp add: known_stokes_def upper_def stokes_formula_def to_ejones_def ejones_sample_def)

subsection \<open>Slices and chunks\<close>

lemma slice_bound_nat: "slice_bound L (int n) = min n L"
  by (simp add: slice_bound_def)

lemma slice_bound_neg: "0 < n \<Longrightarrow> slice_bound L (- int n) = L - n"
  by (auto simp: slice_bound_def max_def)

lemma slice_bound_le: "slice_bound L i \<le> L"
  by (auto simp: slice_bound_def)

lemma nan_edges_eq:
  "0 < n \<Longrightarrow> nan_edges n nan x =
     take (length x - n) (replicate (min n (length x)) nan @ drop n x)
       @ replicate (min n (length x)) nan"
  by (auto simp: nan_edges_def Let_def slice_bound_nat slice_bound_neg min_def)

lemma nan_edges_length: "0 < n \<Longrightarrow> length (nan_edges n nan x) = length x"
  by (auto simp: nan_edges_eq min_def)

lemma nan_edges_nth:
  "0 < n \<Longrightarrow> k < length x \<Longrightarrow>
   nan_edges n nan x ! k = (if k < n \<or> length x \<le> k + n then nan else x ! k)"
  by (auto simp: nan_edges_eq nth_append min_def)

lemma nan_edges_all:
  "0 < n \<Longrightarrow> length x \<le> 2 * n \<Longrightarrow> nan_edges n nan x = replicate (length x) nan"
  by (rule nth_equalityI) (auto simp: nan_edges_nth nan_edges_length)

lemma length_chop [simp]: "length (chop k m xs) = k"
  by (induction k arbitrary: xs) auto

lemma chop_nth: "s < k \<Longrightarrow> chop k m xs ! s = take m (drop (s * m) xs)"
proof (induction k arbitrary: xs s)
  case 0
  then show ?case by simp
next
  case (Suc k)
  show ?case
  proof (cases s)
    case 0
    then show ?thesis by simp
  next
    case (Suc s')
    then have "s' < k" using Suc.prems by simp
    then show ?thesis using Suc.IH [of s' "drop m xs"] Suc
      by (simp add: add.commute)
  qed
qed

lemma concat_chop_length:
  "length xs = k * m \<Longrightarrow> (\<And>c. length (f c) = length c) \<Longrightarrow>
   length (concat (map f (chop k m xs))) = k * m"
  by (induction k arbitrary: xs) auto

lemma concat_chop_nth:
  assumes "length xs = k * m" and "\<And>c. length (f c) = length c" and "s < k" and "j < m"
  shows "concat (map f (chop k m xs)) ! (s * m + j) = f (take m (drop (s * m) xs)) ! j"
  using assms(1,3)
proof (induction k arbitrary: xs s)
  case 0
  then show ?case by simp
next
  case (Suc k)
  have len: "length (f (take m xs)) = m"
    using Suc.prems(1) assms(2) by simp
  show ?case
  proof (cases s)
    case 0
    then show ?thesis using len assms(4) by (simp add: nth_append)
  next
    case (Suc s')
    have "s' < k" using Suc Suc.prems by simp
    moreover have "length (drop m xs) = k * m" using Suc.prems(1) by simp
    ultimately have "concat (map f (chop k m (drop m xs))) ! (s' * m + j) =
        f (take m (drop (s' * m) (drop m xs))) ! j"
      by (rule Suc.IH [rotated])
    then show ?thesis using len Suc
      by (simp add: nth_append add.commute add.assoc)
  qed
qed

lemma concat_chop_all:
  "length xs = k * m \<Longrightarrow> concat (map (\<lambda>c. replicate (length c) v) (chop k m xs)) = replicate (k * m) v"
proof (induction k arbitrary: xs)
  case 0
  then show ?case by simp
next
  case (Suc k)
  then show ?case by (simp add: replicate_add [symmetric] del: replicate_add)
qed

lemma chop_chunk_length: "x \<in> set (chop k m xs) \<Longrightarrow> length x \<le> m"
  by (induction k arbitrary: xs) auto

lemma nan_edges_chop_all:
  assumes "0 < n" and "m \<le> 2 * n" and "length xs = k * m"
  shows "concat (map (nan_edges n v) (chop k m xs)) = replicate (k * m) v"
proof -
  have "map (nan_edges n v) (chop k m xs) = map (\<lambda>c. replicate (length c) v) (chop k m xs)"
    using assms(1,2) by (intro map_cong refl nan_edges_all) (auto dest: chop_chunk_length)
  then show ?thesis
    by (simp only: concat_chop_all [OF assms(3)])
qed

lemma nchan_update [simp]:
  "nchan (ds\<lparr>edge_channels_to_remove := k\<rparr>) = nchan ds"
  by (simp add: nchan_def)

lemma map_const_rows:
  "list_all (\<lambda>row. length row = n) rows \<Longrightarrow> map (\<lambda>row. replicate (length row) v) rows = replicate (length rows) (replicate n v)"
  by (induction rows) auto

lemma remove_edge_channels_erases:
  assumes nch: "nchan ds = Inr (nch, w)" and pos: "0 < nch"
    and n: "0 < edge_channels_to_remove ds" "int nch \<le> 2 * edge_channels_to_remove ds"
    and wf: "wf_darray d" and sh: "shape1 d = nsub * nch"
  shows "remove_edge_channels ds d = Inr (all_nan d)"
proof -
  let ?n = "nat (edge_channels_to_remove ds)"
  let ?v = "replicate (shape2 d) NaN"
  have rows: "list_all (\<lambda>row. length row = nsub * nch) (cells d)"
    using wf sh by (auto simp: wf_darray_def list_all_iff)
  have n': "0 < ?n" "nch \<le> 2 * ?n" using n by auto
  have "map (\<lambda>row. concat (map (nan_edges ?n ?v) (chop nsub nch row))) (cells d)
      = map (\<lambda>row. replicate (length row) ?v) (cells d)"
    using rows by (intro map_cong refl) (auto simp: list_all_iff nan_edges_chop_all [OF n'])
  also have "\<dots> = replicate (shape0 d) (replicate (shape1 d) ?v)"
    using map_const_rows [OF rows] wf sh by (simp add: wf_darray_def)
  finally show ?thesis
    using nch pos n sh by (simp add: remove_edge_channels_def all_nan_def Let_def)
qed

text \<open>
  C2, at the failing input. With an even channel count \<open>nch\<close>, the setter accepts
  \<open>n = nch / 2\<close>: it stores \<open>n\<close>, not the fallback 0, and logs no warning (its guard is
  \<^verbatim>\<open>n*2 > self.nchan\<close>). The edge-flagging stage then sets every sample of every subband
  to NaN.
\<close>

theorem C2_half_channels_erases:
  assumes "nchan ds = Inr (nch, w)" and "0 < nch" and "even nch"
    and "wf_darray d" and "shape1 d = nsub * nch"
  shows "set_edge_channels_to_remove ds (PyInt (int nch div 2)) =
           Inr (ds\<lparr>edge_channels_to_remove := int nch div 2\<rparr>, w @ [INFO])
       \<and> remove_edge_channels (ds\<lparr>edge_channels_to_remove := int nch div 2\<rparr>) d = Inr (all_nan d)"
proof -
  have half: "int nch div 2 * 2 = int nch" "0 < int nch div 2"
    using assms(2,3) by auto
  have "set_edge_channels_to_remove ds (PyInt (int nch div 2)) =
           Inr (ds\<lparr>edge_channels_to_remove := int nch div 2\<rparr>, w @ [INFO])"
    using assms(1) half by (simp add: set_edge_channels_to_remove_def)
  moreover have "remove_edge_channels (ds\<lparr>edge_channels_to_remove := int nch div 2\<rparr>) d = Inr (all_nan d)"
    using assms half by (intro remove_edge_channels_erases [where nch = nch and w = w and nsub = nsub]) auto
  ultimately show ?thesis by simp
qed

theorem C2_half_channels_erases_witness:
  "nchan dynspec16 = Inr (16, []) \<and> wf_darray (ones 2 32 1) \<and>
   set_edge_channels_to_remove dynspec16 (PyInt 8) =
     Inr (dynspec16\<lparr>edge_channels_to_remove := 8\<rparr>, [INFO]) \<and>
   remove_edge_channels (dynspec16\<lparr>edge_channels_to_remove := 8\<rparr>) (ones 2 32 1) =
     Inr (all_nan (ones 2 32 1)) \<and>
   cells (all_nan (ones 2 32 1)) = replicate 2 (replicate 32 [NaN]) \<and>
   cells (ones 2 32 1) = replicate 2 (replicate 32 [Some 1])"
proof -
  have a: "nchan dynspec16 = Inr (16, [])"
    by (simp add: nchan_def dynspec16_def lane16_def)
  have b: "wf_darray (ones 2 32 1)"
    by (simp add: wf_darray_def ones_def list_all_iff)
  have c: "shape1 (ones 2 32 1) = 2 * 16"
    by (simp add: ones_def)
  show ?thesis
    using C2_half_channels_erases [OF a _ _ b c] a b
    by (simp add: all_nan_def ones_def)
qed

lemma edge_setter_fallback:
  "nchan ds = Inr (nch, w) \<Longrightarrow> int nch < 2 * n \<Longrightarrow>
   set_edge_channels_to_remove ds (PyInt n) = Inr (ds\<lparr>edge_channels_to_remove := 0\<rparr>, w @ w @ [WARNING])"
  by (simp add: set_edge_channels_to_remove_def mult.commute)

lemma edge_setter_accepts:
  "nchan ds = Inr (nch, w) \<Longrightarrow> 0 < n \<Longrightarrow> 2 * n \<le> int nch \<Longrightarrow>
   set_edge_channels_to_remove ds (PyInt n) = Inr (ds\<lparr>edge_channels_to_remove := n\<rparr>, w @ [INFO])"
  by (simp add: set_edge_channels_to_remove_def mult.commute)

lemma remove_edge_channels_noop:
  "edge_channels_to_remove ds = 0 \<Longrightarrow> remove_edge_channels ds d = Inr d"
  by (simp add: remove_edge_channels_def)

lemma remove_edge_channels_flags:
  assumes nch: "nchan ds = Inr (nch, w)" and pos: "0 < nch"
    and n: "0 < edge_channels_to_remove ds"
    and wf: "wf_darray d" and sh: "shape1 d = nsub * nch"
    and t: "t < shape0 d" and s: "s < nsub" and j: "j < nch"
  shows "\<exists>d'. remove_edge_channels ds d = Inr d' \<and> shape0 d' = shape0 d \<and> shape1 d' = shape1 d \<and> shape2 d' = shape2 d \<and>
     cells d' ! t ! (s * nch + j) =
       (if int j < edge_channels_to_remove ds \<or> int nch \<le> int j + edge_channels_to_remove ds
        then replicate (shape2 d) NaN else cells d ! t ! (s * nch + j))"
proof -
  let ?n = "nat (edge_channels_to_remove ds)"
  let ?v = "replicate (shape2 d) NaN"
  let ?row = "cells d ! t"
  have n': "0 < ?n" using n by simp
  have tl: "t < length (cells d)" using wf t by (simp add: wf_darray_def)
  have len: "length ?row = nsub * nch"
    using wf sh tl by (auto simp: wf_darray_def list_all_length)
  have full: "s * nch + nch \<le> nsub * nch"
  proof -
    have "Suc s * nch \<le> nsub * nch" using s by (intro mult_le_mono1) simp
    then show ?thesis by simp
  qed
  have idx: "s * nch + j < nsub * nch"
    using full j by simp
  have clen: "length (take nch (drop (s * nch) ?row)) = nch"
    using len full by simp
  have "s * nch \<le> length ?row"
    using len s by simp
  then have chunk: "take nch (drop (s * nch) ?row) ! j = ?row ! (s * nch + j)"
    using j by (simp add: nth_drop)
  have "concat (map (nan_edges ?n ?v) (chop nsub nch ?row)) ! (s * nch + j)
      = nan_edges ?n ?v (take nch (drop (s * nch) ?row)) ! j"
    using len s j n' by (intro concat_chop_nth) (auto simp: nan_edges_length)
  also have "\<dots> = (if j < ?n \<or> nch \<le> j + ?n then ?v else ?row ! (s * nch + j))"
    using n' j clen by (simp add: nan_edges_nth chunk del: nth_take nth_drop)
  finally have cell: "concat (map (nan_edges ?n ?v) (chop nsub nch ?row)) ! (s * nch + j)
      = (if j < ?n \<or> nch \<le> j + ?n then ?v else ?row ! (s * nch + j))" .
  have cond: "(j < ?n \<or> nch \<le> j + ?n) = (int j < edge_channels_to_remove ds \<or> int nch \<le> int j + edge_channels_to_remove ds)"
    using n by auto
  show ?thesis
    using nch pos n sh tl cell cond
    by (simp add: remove_edge_channels_def Let_def)
qed

subsection \<open>The dedispersion loop\<close>

lemma rect_nth: "rect nt nf cs \<Longrightarrow> t < nt \<Longrightarrow> length (cs ! t) = nf"
  by (simp add: rect_def list_all_length)

lemma rectI: "length cs = nt \<Longrightarrow> (\<And>t. t < nt \<Longrightarrow> length (cs ! t) = nf) \<Longrightarrow> rect nt nf cs"
  by (simp add: rect_def list_all_length)

lemma length_roll [simp]: "length (roll a s) = length a"
  by (simp add: roll_def)

lemma roll_nth: "t < length a \<Longrightarrow> roll a s ! t = a ! ((t + nat ((- s) mod int (length a))) mod length a)"
  by (auto simp: roll_def nth_rotate add.commute)

lemma roll_zero [simp]: "roll a 0 = a"
  by (simp add: roll_def)

lemma length_get_col [simp]: "length (get_col cs i) = length cs"
  by (simp add: get_col_def)

lemma length_set_col: "length col = length cs \<Longrightarrow> length (set_col cs i col) = length cs"
  by (simp add: set_col_def)

lemma set_col_nth: "length col = length cs \<Longrightarrow> t < length cs \<Longrightarrow> set_col cs i col ! t = (cs ! t)[i := col ! t]"
  by (simp add: set_col_def)

lemma dedisperse_channel_length [simp]:
  "length (dedisperse_channel np cds cs i) = length cs"
  by (simp add: dedisperse_channel_def Let_def length_set_col slice_bound_le)

lemma dedisperse_channel_row:
  assumes "t < length cs"
  shows "dedisperse_channel np cds cs i ! t =
     (if slice_bound (length cs) (- (cds ! i)) \<le> t
      then (cs ! t)[i := replicate np NaN]
      else (cs ! t)[i := roll (get_col cs i) (- (cds ! i)) ! t])"
proof -
  let ?col = "roll (get_col cs i) (- (cds ! i))"
  let ?rolled = "set_col cs i ?col"
  let ?start = "slice_bound (length cs) (- (cds ! i))"
  have len: "length ?rolled = length cs"
    by (simp add: length_set_col)
  have st: "?start \<le> length cs"
    by (rule slice_bound_le)
  have row: "?rolled ! t = (cs ! t)[i := ?col ! t]"
    using assms by (simp add: set_col_nth)
  show ?thesis
  proof (cases "?start \<le> t")
    case True
    then have "dedisperse_channel np cds cs i ! t = (?rolled ! t)[i := replicate np NaN]"
      using assms len st
      by (simp add: dedisperse_channel_def Let_def nth_append)
    then show ?thesis using True row by simp
  next
    case False
    then have "dedisperse_channel np cds cs i ! t = ?rolled ! t"
      using assms len st
      by (simp add: dedisperse_channel_def Let_def nth_append)
    then show ?thesis using False row by simp
  qed
qed

lemma dedisperse_channel_rect:
  "rect nt nf cs \<Longrightarrow> rect nt nf (dedisperse_channel np cds cs i)"
  by (rule rectI) (auto simp: rect_def dedisperse_channel_row list_all_length)

lemma dedisperse_channel_other:
  "t < length cs \<Longrightarrow> f \<noteq> i \<Longrightarrow> dedisperse_channel np cds cs i ! t ! f = cs ! t ! f"
  by (simp add: dedisperse_channel_row)

lemma dedisperse_channel_zero:
  "rect nt nf cs \<Longrightarrow> t < nt \<Longrightarrow> i < nf \<Longrightarrow> cds ! i = 0 \<Longrightarrow>
   dedisperse_channel np cds cs i ! t ! i = replicate np NaN"
  by (simp add: dedisperse_channel_row rect_def list_all_length slice_bound_def)

lemma dedisperse_fold_rect:
  "rect nt nf cs \<Longrightarrow> rect nt nf (foldl (dedisperse_channel np cds) cs js)"
  by (induction js arbitrary: cs) (auto simp: dedisperse_channel_rect)

lemma dedisperse_fold_other:
  "t < length cs \<Longrightarrow> i \<notin> set js \<Longrightarrow> foldl (dedisperse_channel np cds) cs js ! t ! i = cs ! t ! i"
  by (induction js arbitrary: cs) (auto simp: dedisperse_channel_other)

lemma dedisperse_fold_zero:
  assumes "rect nt nf cs" and "t < nt" and "i < nf" and "cds ! i = 0"
  shows "foldl (dedisperse_channel np cds) cs [0..<nf] ! t ! i = replicate np NaN"
proof -
  have split: "[0..<nf] = [0..<i] @ i # [Suc i..<nf]"
    using assms(3) by (metis le0 upt_conv_Cons upt_add_eq_append le_add_diff_inverse less_imp_le_nat)
  let ?before = "foldl (dedisperse_channel np cds) cs [0..<i]"
  let ?at = "dedisperse_channel np cds ?before i"
  have r1: "rect nt nf ?before"
    using assms(1) by (rule dedisperse_fold_rect)
  have "foldl (dedisperse_channel np cds) cs [0..<nf] ! t ! i
      = foldl (dedisperse_channel np cds) ?at [Suc i..<nf] ! t ! i"
    by (simp add: split)
  also have "\<dots> = ?at ! t ! i"
    using r1 assms(2) by (intro dedisperse_fold_other) (auto simp: rect_def)
  also have "\<dots> = replicate np NaN"
    using r1 assms(2-4) by (rule dedisperse_channel_zero)
  finally show ?thesis .
qed

lemma rect_const:
  assumes "rect nt nf cs" and "\<And>t i. t < nt \<Longrightarrow> i < nf \<Longrightarrow> cs ! t ! i = v"
  shows "cs = replicate nt (replicate nf v)"
proof (rule nth_equalityI)
  show "length cs = length (replicate nt (replicate nf v))"
    using assms(1) by (simp add: rect_def)
next
  fix t assume "t < length cs"
  then have t: "t < nt" using assms(1) by (simp add: rect_def)
  have "cs ! t = replicate nf v"
    using assms(2) [OF t] rect_nth [OF assms(1) t] by (intro nth_equalityI) auto
  then show "cs ! t = replicate nt (replicate nf v) ! t"
    using t by simp
qed

lemma wf_darray_rect: "wf_darray d \<Longrightarrow> rect (shape0 d) (shape1 d) (cells d)"
  by (auto simp: wf_darray_def rect_def list_all_iff)

lemma wf_ones: "wf_darray (ones nt nf np)"
  by (simp add: wf_darray_def ones_def list_all_iff)

lemma np_round_zero [simp]: "np_round 0 = 0"
  by (simp add: np_round_def)

lemma dedisperse_some:
  assumes "dispersion_measure ds = Some dm" and "freq_range ds = Inr (f_lo, f_hi)"
    and "shape1 d = length freqs"
  shows "dedisperse delay ds d freqs dt =
    Inr (d\<lparr>cells := foldl (dedisperse_channel (shape2 d)
              (map (\<lambda>x. np_round (x / dt)) (map (\<lambda>f. delay f dm - delay f_hi dm) freqs)))
            (cells d) [0..<length freqs]\<rparr>)"
  using assms by (simp add: dedisperse_def Let_def)

text \<open>
  C1, at the failing input. With the dispersion measure set to 0 (and a delay that is
  zero for a zero dispersion measure, as the claim takes it), every cell delay is 0, and
  \<^verbatim>\<open>data[-0:, i, :] = np.nan\<close> addresses the whole time series of each channel:
  \<open>_dedisperse\<close> returns the array with every sample NaN, not its input.
\<close>

theorem C1_dedisperse_dm_zero_erases:
  assumes "dispersion_measure ds = Some 0" and "\<And>f. delay f 0 = 0"
    and "freq_range ds = Inr (f_lo, f_hi)" and "wf_darray d" and "shape1 d = length freqs"
  shows "dedisperse delay ds d freqs dt = Inr (all_nan d)"
proof -
  let ?cds = "map (\<lambda>x. np_round (x / dt)) (map (\<lambda>f. delay f 0 - delay f_hi 0) freqs)"
  let ?cs = "foldl (dedisperse_channel (shape2 d) ?cds) (cells d) [0..<length freqs]"
  have r: "rect (shape0 d) (length freqs) (cells d)"
    using wf_darray_rect [OF assms(4)] assms(5) by simp
  have zero: "\<And>i. i < length freqs \<Longrightarrow> ?cds ! i = 0"
    by (simp add: assms(2))
  have "?cs = replicate (shape0 d) (replicate (length freqs) (replicate (shape2 d) NaN))"
  proof (rule rect_const)
    show "rect (shape0 d) (length freqs) ?cs"
      using r by (rule dedisperse_fold_rect)
  next
    fix t i assume "t < shape0 d" and "i < length freqs"
    then show "?cs ! t ! i = replicate (shape2 d) NaN"
      using r zero by (intro dedisperse_fold_zero)
  qed
  then show ?thesis
    using assms(5) by (simp add: dedisperse_some [OF assms(1,3,5)] all_nan_def)
qed

theorem C1_dedisperse_dm_zero_erases_witness:
  "dedisperse example_delay
     (dynspec16\<lparr>dispersion_measure := Some 0, freq_range_sel := Some (40 * 10 ^ 6, 80 * 10 ^ 6)\<rparr>)
     (ones 2 2 1) [60 * 10 ^ 6, 70 * 10 ^ 6] (dt_of header16)
   = Inr (all_nan (ones 2 2 1)) \<and>
   cells (ones 2 2 1) = [[[Some 1], [Some 1]], [[Some 1], [Some 1]]] \<and>
   cells (all_nan (ones 2 2 1)) = [[[NaN], [NaN]], [[NaN], [NaN]]]"
proof -
  let ?ds = "dynspec16\<lparr>dispersion_measure := Some 0, freq_range_sel := Some (40 * 10 ^ 6, 80 * 10 ^ 6)\<rparr>"
  have a: "dispersion_measure ?ds = Some 0" by simp
  have b: "\<And>f. example_delay f 0 = 0" by (simp add: example_delay_def)
  have c: "freq_range ?ds = Inr (40 * 10 ^ 6, 80 * 10 ^ 6)" by (simp add: freq_range_def)
  have d: "wf_darray (ones 2 2 1)" by (rule wf_ones)
  have e: "shape1 (ones 2 2 1) = length [60 * 10 ^ 6, 70 * 10 ^ 6 :: real]" by (simp add: ones_def)
  show ?thesis
    using C1_dedisperse_dm_zero_erases [of ?ds example_delay, OF a b c d e]
    by (simp add: all_nan_def ones_def numeral_2_eq_2)
qed

text \<open>
  C9 (as amended). Whenever dedispersion runs with a dispersion measure that is not
  \<^verbatim>\<open>None\<close>, every channel whose relative delay rounds to zero time samples has its
  whole time series set to NaN; a channel whose frequency is the selected maximum
  frequency, the delay reference, is always one of them.
\<close>

theorem C9_zero_delay_channel_erased:
  assumes "dispersion_measure ds = Some dm" and "freq_range ds = Inr (f_lo, f_hi)"
    and "wf_darray d" and "shape1 d = length freqs" and "i < length freqs"
    and "np_round ((delay (freqs ! i) dm - delay f_hi dm) / dt) = 0 \<or> freqs ! i = f_hi"
    and "t < shape0 d"
  shows "\<exists>d'. dedisperse delay ds d freqs dt = Inr d' \<and> cells d' ! t ! i = replicate (shape2 d) NaN"
proof -
  let ?cds = "map (\<lambda>x. np_round (x / dt)) (map (\<lambda>f. delay f dm - delay f_hi dm) freqs)"
  have r: "rect (shape0 d) (length freqs) (cells d)"
    using wf_darray_rect [OF assms(3)] assms(4) by simp
  have "?cds ! i = 0"
    using assms(5,6) by auto
  then have "foldl (dedisperse_channel (shape2 d) ?cds) (cells d) [0..<length freqs] ! t ! i
      = replicate (shape2 d) NaN"
    using r assms(5,7) by (intro dedisperse_fold_zero)
  then show ?thesis
    by (simp add: dedisperse_some [OF assms(1,2,4)])
qed

lemma np_round_eqI:
  assumes "real_of_int n - 1 / 2 < x" and "x < real_of_int n + 1 / 2"
  shows "np_round x = n"
proof -
  have "\<lfloor>x\<rfloor> = n \<or> \<lfloor>x\<rfloor> = n - 1"
    using assms by linarith
  then show ?thesis
  proof
    assume f: "\<lfloor>x\<rfloor> = n"
    then have "x - of_int \<lfloor>x\<rfloor> < 1 / 2" using assms by simp
    then show ?thesis using f by (simp add: np_round_def Let_def)
  next
    assume f: "\<lfloor>x\<rfloor> = n - 1"
    then have "1 / 2 < x - of_int \<lfloor>x\<rfloor>" using assms by simp
    then show ?thesis using f by (simp add: np_round_def Let_def)
  qed
qed

lemma cell_delay_ch1_dm2: "np_round ((example_delay (top_freqs ! 1) 2 - example_delay 79980468.75 2) / dt_of header16) = 1"
  by (rule np_round_eqI) (simp_all add: top_freqs_def df_of_def dt_of_def header16_def example_delay_def power2_eq_square)

lemma cell_delay_ch0_dm2: "np_round ((example_delay (top_freqs ! 0) 2 - example_delay 79980468.75 2) / dt_of header16) = 2"
  by (rule np_round_eqI) (simp_all add: top_freqs_def df_of_def dt_of_def header16_def example_delay_def power2_eq_square)

lemma cell_delay_ch1_dm_half: "np_round ((example_delay (top_freqs ! 1) (1 / 2) - example_delay 79980468.75 (1 / 2)) / dt_of header16) = 0"
  by (rule np_round_eqI) (simp_all add: top_freqs_def df_of_def dt_of_def header16_def example_delay_def power2_eq_square)

lemma cell_delay_ch0_dm_half: "np_round ((example_delay (top_freqs ! 0) (1 / 2) - example_delay 79980468.75 (1 / 2)) / dt_of header16) = 1"
  by (rule np_round_eqI) (simp_all add: top_freqs_def df_of_def dt_of_def header16_def example_delay_def power2_eq_square)

lemma dedisperse_fold_21: "foldl (dedisperse_channel 1 [2, 1]) (cells grid3x2) [0..<2]
    = [[[Some 5], [Some 4]], [[NaN], [Some 6]], [[NaN], [NaN]]]"
  by code_simp

lemma dedisperse_fold_10: "foldl (dedisperse_channel 1 [1, 0]) (cells grid3x2) [0..<2]
    = [[[Some 3], [NaN]], [[Some 5], [NaN]], [[NaN], [NaN]]]"
  by code_simp

lemma cell_delays_dm2:
  "map (\<lambda>x. np_round (x / dt_of header16))
     (map (\<lambda>f. example_delay f 2 - example_delay 79980468.75 2) top_freqs) = [2, 1]"
  using cell_delay_ch1_dm2 cell_delay_ch0_dm2 by (simp add: top_freqs_def)

lemma cell_delays_dm_half:
  "map (\<lambda>x. np_round (x / dt_of header16))
     (map (\<lambda>f. example_delay f (1 / 2) - example_delay 79980468.75 (1 / 2)) top_freqs) = [1, 0]"
  using cell_delay_ch1_dm_half cell_delay_ch0_dm_half by (simp add: top_freqs_def)

lemma dynspec_dm_fields:
  "dispersion_measure (dynspec_dm dm) = Some dm"
  "freq_range (dynspec_dm dm) = Inr (79980468.75 - 16 * df_of header16, 79980468.75)"
  by (simp_all add: dynspec_dm_def freq_range_def)

lemma grid3x2_fields:
  "shape0 grid3x2 = 3" "shape1 grid3x2 = 2" "shape2 grid3x2 = 1" "wf_darray grid3x2"
  "length top_freqs = 2"
  by (simp_all add: grid3x2_def wf_darray_def top_freqs_def)

text \<open>
  C9 as stated fails on the channel nearest the selected maximum frequency: with a
  dispersion measure of 2, the two top channels of a 16-channel subband and the
  reference half a channel above the band, the nearest channel (index 1) has a cell
  delay of 1 and keeps two of its three samples.
\<close>

theorem C9_counterexample:
  "dispersion_measure (dynspec_dm 2) = Some 2 \<and>
   freq_range (dynspec_dm 2) = Inr (79980468.75 - 16 * df_of header16, 79980468.75) \<and>
   \<bar>top_freqs ! 1 - 79980468.75\<bar> < \<bar>top_freqs ! 0 - 79980468.75\<bar> \<and>
   dedisperse example_delay (dynspec_dm 2) grid3x2 top_freqs (dt_of header16) =
     Inr (grid3x2\<lparr>cells := [[[Some 5], [Some 4]], [[NaN], [Some 6]], [[NaN], [NaN]]]\<rparr>)"
proof -
  have near: "\<bar>top_freqs ! 1 - 79980468.75\<bar> < \<bar>top_freqs ! 0 - 79980468.75\<bar>"
    by (simp add: top_freqs_def df_of_def header16_def)
  have "dedisperse example_delay (dynspec_dm 2) grid3x2 top_freqs (dt_of header16) =
     Inr (grid3x2\<lparr>cells := [[[Some 5], [Some 4]], [[NaN], [Some 6]], [[NaN], [NaN]]]\<rparr>)"
    by (simp only: dedisperse_some [OF dynspec_dm_fields, of grid3x2 top_freqs]
          grid3x2_fields cell_delays_dm2 dedisperse_fold_21)
  with near show ?thesis
    by (simp only: dynspec_dm_fields simp_thms)
qed

theorem C9_zero_delay_channel_erased_witness:
  "dispersion_measure (dynspec_dm (1 / 2)) = Some (1 / 2) \<and>
   freq_range (dynspec_dm (1 / 2)) = Inr (79980468.75 - 16 * df_of header16, 79980468.75) \<and>
   wf_darray grid3x2 \<and> shape1 grid3x2 = length top_freqs \<and> 1 < length top_freqs \<and>
   np_round ((example_delay (top_freqs ! 1) (1 / 2) - example_delay 79980468.75 (1 / 2))
              / dt_of header16) = 0 \<and>
   0 < shape0 grid3x2 \<and>
   (\<exists>d'. dedisperse example_delay (dynspec_dm (1 / 2)) grid3x2 top_freqs (dt_of header16) = Inr d'
         \<and> cells d' ! 0 ! 1 = [NaN])"
proof -
  have a: "shape1 grid3x2 = length top_freqs" "1 < length top_freqs" "0 < shape0 grid3x2"
    by (simp_all add: grid3x2_fields)
  have b: "np_round ((example_delay (top_freqs ! 1) (1 / 2) - example_delay 79980468.75 (1 / 2))
              / dt_of header16) = 0 \<or> top_freqs ! 1 = 79980468.75"
    using cell_delay_ch1_dm_half by simp
  have "\<exists>d'. dedisperse example_delay (dynspec_dm (1 / 2)) grid3x2 top_freqs (dt_of header16) = Inr d'
         \<and> cells d' ! 0 ! 1 = replicate (shape2 grid3x2) NaN"
    by (rule C9_zero_delay_channel_erased [where delay = example_delay and dm = "1 / 2" and i = 1,
          OF dynspec_dm_fields grid3x2_fields(4) a(1,2) b a(3)])
  then show ?thesis
    using a cell_delay_ch1_dm_half by (simp add: dynspec_dm_fields grid3x2_fields)
qed

subsection \<open>Rebinning\<close>

lemma slice_take: "length xs = n \<Longrightarrow> 0 < l \<Longrightarrow> slice xs 0 (- int l) = take (n - l) xs"
  by (simp add: slice_def slice_bound_def max_def nat_diff_distrib)

lemma slice_all: "length xs = n \<Longrightarrow> slice xs 0 (int n) = xs"
  by (simp add: slice_def slice_bound_def)

lemma rebin_time_reduce:
  assumes "\<lfloor>rdt / dt\<rfloor> = tb" and "tb \<noteq> 0" and "int (shape0 d) div tb = int k" and "0 < k"
    and "int (shape0 d) mod int k = lo"
    and "slice (cells d) 0 (if lo \<noteq> 0 then - lo else int (shape0 d)) = kept"
    and "slice times_unix 0 (if lo \<noteq> 0 then - lo else int (shape0 d)) = kt"
    and "(int (shape0 d) - lo) div int k = int w"
    and "length kept = k * w" and "length kt = k * w"
  shows "rebin_time rdt dt d times_unix =
    Inr (\<lparr>shape0 = k, shape1 = shape1 d, shape2 = shape2 d,
          cells = map (nanmean_rows (shape1 d) (shape2 d)) (chop k w kept)\<rparr>,
         map mean (chop k w kt))"
  unfolding rebin_time_def Let_def
  apply (simp only: assms(1,3,5,6,7,8,9,10))
  using assms(2,4) apply simp
  done

lemma rebin_time_code:
  assumes wf: "wf_darray d" and len: "length times_unix = shape0 d"
    and tb: "\<lfloor>rdt / dt\<rfloor> = int tbins" and pos: "1 \<le> tbins" and le: "tbins \<le> shape0 d"
    and k: "k = shape0 d div tbins"
  shows "rebin_time rdt dt d times_unix =
    Inr (\<lparr>shape0 = k, shape1 = shape1 d, shape2 = shape2 d,
          cells = map (nanmean_rows (shape1 d) (shape2 d))
                    (chop k (shape0 d div k) (take (k * (shape0 d div k)) (cells d)))\<rparr>,
         map mean (chop k (shape0 d div k) (take (k * (shape0 d div k)) times_unix)))"
proof -
  let ?n = "shape0 d"
  let ?l = "?n mod k"
  have kpos: "0 < k"
    using k pos le by (simp add: div_greater_zero_iff)
  have lenc: "length (cells d) = ?n"
    using wf by (simp add: wf_darray_def)
  have nt: "int ?n div int tbins = int k"
    using k by (simp add: zdiv_int)
  have lo: "int ?n mod int k = int ?l"
    by (simp add: zmod_int)
  have keep: "?n - ?l = k * (?n div k)"
    by (simp add: minus_mod_eq_mult_div)
  have "int ?n - int ?l = int (k * (?n div k))"
    using keep by (metis mod_less_eq_dividend of_nat_diff)
  then have w: "(int ?n - int ?l) div int k = int (?n div k)"
    using kpos by (simp add: zdiv_int [symmetric] del: of_nat_mult)
  have kept: "slice xs 0 (if int ?l \<noteq> 0 then - int ?l else int ?n) = take (k * (?n div k)) xs"
    if a: "length xs = ?n" for xs :: "'a list"
  proof (cases "?l = 0")
    case True
    then have "k * (?n div k) = ?n" using keep by simp
    then show ?thesis using True a by (simp add: slice_all)
  next
    case False
    then show ?thesis using a keep by (simp add: slice_take)
  qed
  have lk: "k * (?n div k) \<le> ?n"
    by simp
  have l1: "length (take (k * (?n div k)) (cells d)) = k * (?n div k)"
    using lk lenc by simp
  have l2: "length (take (k * (?n div k)) times_unix) = k * (?n div k)"
    using lk len by simp
  have tb0: "int tbins \<noteq> 0" using pos by simp
  show ?thesis
    by (rule rebin_time_reduce [OF tb tb0 nt kpos lo kept [OF lenc] kept [OF len] w l1 l2])
qed

lemma ramp_fields:
  "shape0 (ramp n) = n" "shape1 (ramp n) = 1" "shape2 (ramp n) = 1" "wf_darray (ramp n)"
  by (simp_all add: ramp_def wf_darray_def list_all_iff)

lemma ramp_bins_33:
  "map (nanmean_rows 1 1) (chop 3 33 (take 99 (cells (ramp 100)))) = [[[Some 16]], [[Some 49]], [[Some 82]]]"
  by code_simp

lemma ramp_times_33:
  "map mean (chop 3 33 (take 99 (map real [0..<100]))) = [16, 49, 82]"
  by code_simp

lemma ramp_first_30:
  "nanmean (map (\<lambda>row. row ! 0 ! 0) (take 30 (cells (ramp 100)))) = Some (29 / 2)"
  by code_simp

text \<open>
  C6, on the code. For a target width of \<open>tbins\<close> native samples, between 1 and the
  number \<open>n\<close> of time samples, the time branch of \<open>_rebin\<close> returns
  \<open>k = n div tbins\<close> bins, as the claim says, but each bin averages \<open>n div k\<close>
  consecutive samples and only the last \<open>n mod k\<close> samples are dropped (the source takes
  \<^verbatim>\<open>ntimes_i % ntimes\<close> for the leftover). With 100 samples and a width of 30 that is 3
  bins of 33 samples and 1 dropped sample, where the claim has 3 bins of 30 samples and
  the remainder of 10 left out of the average.
\<close>

theorem C6_rebin_time_bins:
  assumes "wf_darray d" and "length times_unix = shape0 d"
    and "\<lfloor>rdt / dt\<rfloor> = int tbins" and "1 \<le> tbins" and "tbins \<le> shape0 d"
  shows "rebin_time rdt dt d times_unix =
    Inr (\<lparr>shape0 = shape0 d div tbins, shape1 = shape1 d, shape2 = shape2 d,
          cells = map (nanmean_rows (shape1 d) (shape2 d))
                    (chop (shape0 d div tbins) (shape0 d div (shape0 d div tbins))
                       (take (shape0 d div tbins * (shape0 d div (shape0 d div tbins))) (cells d)))\<rparr>,
         map mean (chop (shape0 d div tbins) (shape0 d div (shape0 d div tbins))
                     (take (shape0 d div tbins * (shape0 d div (shape0 d div tbins))) times_unix)))"
  using assms by (intro rebin_time_code) auto

theorem C6_rebin_time_bins_witness:
  "wf_darray (ramp 100) \<and> length (map real [0..<100]) = shape0 (ramp 100) \<and>
   \<lfloor>30 / 1 :: real\<rfloor> = int 30 \<and> (1::nat) \<le> 30 \<and> 30 \<le> shape0 (ramp 100) \<and>
   rebin_time 30 1 (ramp 100) (map real [0..<100]) =
     Inr (\<lparr>shape0 = 3, shape1 = 1, shape2 = 1,
           cells = [[[Some 16]], [[Some 49]], [[Some 82]]]\<rparr>, [16, 49, 82]) \<and>
   nanmean (map (\<lambda>row. row ! 0 ! 0) (take 30 (cells (ramp 100)))) = Some (29 / 2)"
proof -
  have a: "length (map real [0..<100]) = shape0 (ramp 100)" by (simp add: ramp_fields)
  have b: "\<lfloor>30 / 1 :: real\<rfloor> = int 30" by simp
  have c: "(1::nat) \<le> 30" "30 \<le> shape0 (ramp 100)" by (simp_all add: ramp_fields)
  have "rebin_time 30 1 (ramp 100) (map real [0..<100]) =
     Inr (\<lparr>shape0 = 3, shape1 = 1, shape2 = 1,
           cells = [[[Some 16]], [[Some 49]], [[Some 82]]]\<rparr>, [16, 49, 82])"
    using C6_rebin_time_bins [OF ramp_fields(4) a b c]
    by (simp add: ramp_fields ramp_bins_33 ramp_times_33 del: One_nat_def)
  then show ?thesis
    using a c ramp_first_30 by (simp add: ramp_fields)
qed

lemma rebin_none:
  "rebin_dt ds = None \<Longrightarrow> rebin_df ds = None \<Longrightarrow> rebin ds d times_unix freqs dt df = Inr (d, times_unix, freqs)"
  by (simp add: rebin_def)

lemma rebin_width_agrees:
  fixes n tbins :: nat
  assumes "n mod tbins < n div tbins"
  shows "n div (n div tbins) = tbins"
proof -
  let ?k = "n div tbins"
  have kpos: "0 < ?k" using assms by simp
  have "n = n mod tbins + tbins * ?k" by simp
  then have "n div ?k = (n mod tbins + tbins * ?k) div ?k" by simp
  also have "\<dots> = (n mod tbins) div ?k + tbins"
    using kpos by (simp only: div_mult_self1 [of ?k "n mod tbins" tbins]) 
  also have "\<dots> = tbins" using assms by simp
  finally show ?thesis .
qed

lemma rebin_examples:
  "(100::nat) div 10 = 10 \<and> (100::nat) div (100 div 10) = 10 \<and> (100::nat) mod (100 div 10) = 0"
  "(100::nat) div 33 = 3 \<and> (100::nat) div (100 div 33) = 33 \<and> (100::nat) mod (100 div 33) = 1"
  "(100::nat) div 30 = 3 \<and> (100::nat) div (100 div 30) = 33 \<and> (100::nat) mod (100 div 30) = 1 \<and> (100::nat) mod 30 = 10"
  by simp_all

subsection \<open>Attaching lanes\<close>

lemma append_lanes_prefix:
  "append_lanes env fs ls = (ls', err) \<Longrightarrow>
   \<exists>new. ls' = ls @ new \<and> length new \<le> length fs \<and>
     (err = None \<longrightarrow> length new = length fs \<and> map Inr new = map (new_lane env) fs)"
proof (induction fs arbitrary: ls)
  case Nil
  then show ?case by simp
next
  case (Cons f fs)
  show ?case
  proof (cases "os_files env f")
    case None
    then show ?thesis using Cons.prems by auto
  next
    case (Some c)
    show ?thesis
    proof (cases "new_lane env f")
      case (Inl e)
      then show ?thesis using Cons.prems Some by auto
    next
      case (Inr lane_i)
      then have "append_lanes env fs (ls @ [lane_i]) = (ls', err)"
        using Cons.prems Some by simp
      from Cons.IH [OF this] obtain new where
        n: "ls' = (ls @ [lane_i]) @ new" "length new \<le> length fs"
           "err = None \<longrightarrow> length new = length fs \<and> map Inr new = map (new_lane env) fs"
        by blast
      show ?thesis
        by (rule exI [of _ "lane_i # new"]) (use n Inr in simp)
    qed
  qed
qed

lemma append_lanes_again:
  "append_lanes env fs ls = (ls @ new, None) \<Longrightarrow> append_lanes env fs ls2 = (ls2 @ new, None)"
proof (induction fs arbitrary: ls ls2 new)
  case Nil
  then show ?case by simp
next
  case (Cons f fs)
  from Cons.prems obtain c lane_i where
    c: "os_files env f = Some c" and l: "new_lane env f = Inr lane_i"
    and r: "append_lanes env fs (ls @ [lane_i]) = (ls @ new, None)"
    by (auto split: option.splits sum.splits)
  from append_lanes_prefix [OF r] obtain new' where
    n: "ls @ new = (ls @ [lane_i]) @ new'" by blast
  then have new: "new = lane_i # new'" by simp
  have "append_lanes env fs (ls @ [lane_i]) = ((ls @ [lane_i]) @ new', None)"
    using r n by simp
  then have "append_lanes env fs (ls2 @ [lane_i]) = ((ls2 @ [lane_i]) @ new', None)"
    by (rule Cons.IH)
  then show ?case using c l new by simp
qed

lemma append_lanes_all:
  "list_all (\<lambda>f. os_files env f \<noteq> None \<and> \<not> isl (new_lane env f)) fs \<Longrightarrow>
   snd (append_lanes env fs ls) = None"
proof (induction fs arbitrary: ls)
  case Nil
  then show ?case by simp
next
  case (Cons f fs)
  then show ?case by (cases "new_lane env f") auto
qed

lemma set_lanefiles_lanes:
  assumes "set_lanefiles env ds l = (ds1, e1)"
  shows "append_lanes env (map (os_abspath env) (map (os_abspath env) (as_list l))) (lanes ds) = (lanes ds1, e1)"
    and "e1 = None \<Longrightarrow> ds1 = ds\<lparr>lanes := lanes ds1, lanefiles := map (os_abspath env) (as_list l)\<rparr>"
  using assms by (auto simp: set_lanefiles_def Let_def split: prod.splits option.splits)

lemma set_lanefiles_twice:
  assumes "set_lanefiles env ds l = (ds1, None)" and "lanes ds1 = lanes ds @ new"
  shows "set_lanefiles env ds1 l = (ds1\<lparr>lanes := lanes ds @ new @ new\<rparr>, None)"
proof -
  let ?fs = "map (os_abspath env) (map (os_abspath env) (as_list l))"
  have a: "append_lanes env ?fs (lanes ds) = (lanes ds @ new, None)"
    using set_lanefiles_lanes(1) [OF assms(1)] assms(2) by simp
  have b: "append_lanes env ?fs (lanes ds1) = (lanes ds1 @ new, None)"
    using a by (rule append_lanes_again)
  have c: "lanefiles ds1 = map (os_abspath env) (as_list l)"
    using set_lanefiles_lanes(2) [OF assms(1)] by (metis dynspec.select_convs(2) dynspec.surjective dynspec.update_convs(1,2))
  show ?thesis
    using b c assms(2) by (simp add: set_lanefiles_def Let_def)
qed

lemma set_beam_frame:
  "set_beam ds b = Inr (ds', w) \<Longrightarrow> lanes ds' = lanes ds \<and> lanefiles ds' = lanefiles ds"
  by (auto simp: set_beam_def split: pyval.splits if_splits list.splits)

lemma set_edge_frame:
  "set_edge_channels_to_remove ds n = Inr (ds', w) \<Longrightarrow>
   lanes ds' = lanes ds \<and> lanefiles ds' = lanefiles ds"
  by (auto simp: set_edge_channels_to_remove_def Let_def split: pyval.splits sum.splits if_splits prod.splits)

lemma dynspec_init_lanes:
  assumes "dynspec_init env l = Inr ds0"
  shows "append_lanes env (map (os_abspath env) (map (os_abspath env) (as_list l))) [] = (lanes ds0, None)
     \<and> lanefiles ds0 = map (os_abspath env) (as_list l)"
proof -
  let ?e = "\<lparr>lanes = [], lanefiles = [], time_range_sel = None, freq_range_sel = None,
                 beam = 0, dispersion_measure = None, rebin_dt = None, rebin_df = None,
                 jump_correction = False, bp_correction = ''none'',
                 edge_channels_to_remove = 0, freq_flat = False, clean_rfi = False\<rparr>"
  obtain ds1 e1 where s1: "set_lanefiles env ?e l = (ds1, e1)"
    by (cases "set_lanefiles env ?e l") auto
  have e1: "e1 = None"
    using assms s1 by (cases e1) (auto simp: dynspec_init_def)
  obtain ds2 w2 ds3 w3 where b: "set_beam ds1 (PyInt 0) = Inr (ds2, w2)"
    and c: "set_edge_channels_to_remove ds2 (PyInt 0) = Inr (ds3, w3)" and d: "ds0 = ds3"
    using assms s1 e1 by (auto simp: dynspec_init_def split: sum.splits prod.splits)
  have f: "lanes ds0 = lanes ds1" "lanefiles ds0 = lanefiles ds1"
    using set_beam_frame [OF b] set_edge_frame [OF c] d by simp_all
  have g: "lanefiles ds1 = map (os_abspath env) (as_list l)"
    using set_lanefiles_lanes(2) [OF s1 e1] by (metis dynspec.select_convs(2) dynspec.surjective dynspec.update_convs(1,2))
  show ?thesis
    using set_lanefiles_lanes(1) [OF s1] e1 f g by simp
qed

lemma set_lanefiles_after_init:
  assumes "dynspec_init env l = Inr ds0"
  shows "set_lanefiles env ds0 l = (ds0\<lparr>lanes := lanes ds0 @ lanes ds0\<rparr>, None)"
proof -
  let ?fs = "map (os_abspath env) (map (os_abspath env) (as_list l))"
  have a: "append_lanes env ?fs [] = ([] @ lanes ds0, None)" and b: "lanefiles ds0 = map (os_abspath env) (as_list l)"
    using dynspec_init_lanes [OF assms] by simp_all
  have "append_lanes env ?fs (lanes ds0) = (lanes ds0 @ lanes ds0, None)"
    using a by (rule append_lanes_again)
  then show ?thesis
    using b by (simp add: set_lanefiles_def Let_def)
qed

lemma isr_init_ab: "\<not> isl (dynspec_init env0 (FileList files_ab))"
  by code_simp

lemma init_ab: "dynspec_init env0 (FileList files_ab) = Inr dynspec_ab"
  using isr_init_ab by (simp add: dynspec_ab_def)

lemma lanefile_ab: "map lanefile (lanes dynspec_ab) = files_ab"
  by code_simp

lemma files_ab_load:
  "list_all (\<lambda>p. os_files env0 (os_abspath env0 (os_abspath env0 p)) \<noteq> None
                        \<and> \<not> isl (new_lane env0 (os_abspath env0 (os_abspath env0 p)))) files_ab"
  by code_simp

lemma get_twice_ab:
  "map_sum id (\<lambda>sd. (shape1 (sd_data sd), length (sd_freq sd)))
     (get ext0 (dynspec_ab\<lparr>lanes := lanes dynspec_ab @ lanes dynspec_ab\<rparr>) ''I'') = Inr (16, 16)"
  by code_simp

lemma get_once_ab:
  "map_sum id (\<lambda>sd. (shape1 (sd_data sd), length (sd_freq sd))) (get ext0 dynspec_ab ''I'') = Inr (8, 8)"
  by code_simp

text \<open>
  C3, on the code. The setter of \<open>lanefiles\<close> compares no names: whenever every listed
  file exists and loads, the assignment raises nothing, whatever the prefixes of the
  names. The files \<^verbatim>\<open>/obs/A_0.spectra\<close> and \<^verbatim>\<open>/obs/B_1.spectra\<close>, of two observations,
  are attached together, by the setter and by the constructor.
\<close>

theorem C3_no_session_check:
  assumes "list_all (\<lambda>p. os_files env (os_abspath env (os_abspath env p)) \<noteq> None
                        \<and> \<not> isl (new_lane env (os_abspath env (os_abspath env p)))) files"
  shows "snd (set_lanefiles env ds (FileList files)) = None"
proof -
  have "list_all (\<lambda>f. os_files env f \<noteq> None \<and> \<not> isl (new_lane env f))
          (map (os_abspath env) (map (os_abspath env) files))"
    using assms by (simp add: list_all_iff)
  from append_lanes_all [OF this, of "lanes ds"] show ?thesis
    by (auto simp: set_lanefiles_def as_list_def Let_def split: prod.splits option.splits)
qed

theorem C3_no_session_check_witness:
  "list_all (\<lambda>p. os_files env0 (os_abspath env0 (os_abspath env0 p)) \<noteq> None
                   \<and> \<not> isl (new_lane env0 (os_abspath env0 (os_abspath env0 p))))
     [''/obs/A_0.spectra'', ''/obs/B_1.spectra''] \<and>
   snd (set_lanefiles env0 dynspec16 (FileList [''/obs/A_0.spectra'', ''/obs/B_1.spectra''])) = None \<and>
   dynspec_init env0 (FileList [''/obs/A_0.spectra'', ''/obs/B_1.spectra'']) = Inr dynspec_ab \<and>
   map lanefile (lanes dynspec_ab) = [''/obs/A_0.spectra'', ''/obs/B_1.spectra'']"
  using C3_no_session_check [of env0 files_ab dynspec16, OF files_ab_load]
        files_ab_load init_ab lanefile_ab
  by (simp add: files_ab_def)

text \<open>
  C10. An assignment to \<open>lanefiles\<close> leaves the lanes that were attached in place and
  appends the new ones after them; when it raises nothing it has appended one lane
  per listed file, the one \<open>_Lane\<close> builds for that file, and assigning the same list
  again appends the same lanes once more. After the constructor has attached a list,
  assigning it again doubles the lanes. \<open>get\<close> runs over the list of lanes as it is:
  on the example the product of the doubled observation has 16 channels where that of
  the constructed one has 8.
\<close>

theorem C10_lanefiles_appends:
  "(set_lanefiles env ds l = (ds1, e1) \<longrightarrow>
      (\<exists>new. lanes ds1 = lanes ds @ new \<and> length new \<le> length (as_list l) \<and>
         (e1 = None \<longrightarrow>
            length new = length (as_list l) \<and>
            map Inr new = map (new_lane env)
                            (map (os_abspath env) (map (os_abspath env) (as_list l))) \<and>
            set_lanefiles env ds1 l = (ds1\<lparr>lanes := lanes ds @ new @ new\<rparr>, None))))
   \<and> (dynspec_init env l = Inr ds0 \<longrightarrow>
        length (lanes ds0) = length (as_list l) \<and>
        set_lanefiles env ds0 l = (ds0\<lparr>lanes := lanes ds0 @ lanes ds0\<rparr>, None))"
proof (intro conjI impI)
  assume a: "set_lanefiles env ds l = (ds1, e1)"
  let ?fs = "map (os_abspath env) (map (os_abspath env) (as_list l))"
  from append_lanes_prefix [OF set_lanefiles_lanes(1) [OF a]] obtain new where
    n: "lanes ds1 = lanes ds @ new" "length new \<le> length ?fs"
       "e1 = None \<longrightarrow> length new = length ?fs \<and> map Inr new = map (new_lane env) ?fs"
    by blast
  have "e1 = None \<longrightarrow> set_lanefiles env ds1 l = (ds1\<lparr>lanes := lanes ds @ new @ new\<rparr>, None)"
    using set_lanefiles_twice [OF _ n(1)] a by blast
  then show "\<exists>new. lanes ds1 = lanes ds @ new \<and> length new \<le> length (as_list l) \<and>
         (e1 = None \<longrightarrow>
            length new = length (as_list l) \<and>
            map Inr new = map (new_lane env) ?fs \<and>
            set_lanefiles env ds1 l = (ds1\<lparr>lanes := lanes ds @ new @ new\<rparr>, None))"
    using n by (intro exI [of _ new]) simp
next
  assume b: "dynspec_init env l = Inr ds0"
  from append_lanes_prefix [OF conjunct1 [OF dynspec_init_lanes [OF b]]]
  show "length (lanes ds0) = length (as_list l)" by auto
  show "set_lanefiles env ds0 l = (ds0\<lparr>lanes := lanes ds0 @ lanes ds0\<rparr>, None)"
    using b by (rule set_lanefiles_after_init)
qed

theorem C10_lanefiles_appends_witness:
  "dynspec_init env0 (FileList files_ab) = Inr dynspec_ab \<and>
   length (lanes dynspec_ab) = 2 \<and>
   set_lanefiles env0 dynspec_ab (FileList files_ab) =
     (dynspec_ab\<lparr>lanes := lanes dynspec_ab @ lanes dynspec_ab\<rparr>, None) \<and>
   map lanefile (lanes dynspec_ab @ lanes dynspec_ab) =
     [''/obs/A_0.spectra'', ''/obs/B_1.spectra'', ''/obs/A_0.spectra'', ''/obs/B_1.spectra''] \<and>
   map_sum id (\<lambda>sd. (shape1 (sd_data sd), length (sd_freq sd))) (get ext0 dynspec_ab ''I'')
     = Inr (8, 8) \<and>
   map_sum id (\<lambda>sd. (shape1 (sd_data sd), length (sd_freq sd)))
     (get ext0 (dynspec_ab\<lparr>lanes := lanes dynspec_ab @ lanes dynspec_ab\<rparr>) ''I'') = Inr (16, 16)"
  using C10_lanefiles_appends [of env0 dynspec_ab "FileList files_ab"
          "dynspec_ab\<lparr>lanes := lanes dynspec_ab @ lanes dynspec_ab\<rparr>" None dynspec_ab]
        init_ab lanefile_ab get_once_ab get_twice_ab
  by (simp add: files_ab_def as_list_def)

subsection \<open>Retrieval\<close>
















lemma lane_a_stokes: "stokes_array lane_a ''I'' = Inr (Some stokes_a)"
  by code_simp

lemma lane_a_cells:
  "cells (select_data stokes_a (0, 8) (0, 1, 0, 8)) = [replicate 8 [Some 8]]"
  by code_simp












subsection \<open>Selection on whole subbands\<close>

lemma length_slice_nat:
  "length (slice xs (int a) (int b)) = min b (length xs) - min a (length xs)"
  by (auto simp: slice_def slice_bound_nat)

lemma slice_len_nat: "slice_len n (int a) (int b) = min b n - min a n"
  by (simp add: slice_len_def slice_bound_nat)

lemma argmin_from_bound:
  "bi < i \<Longrightarrow> argmin_from bi bv i vs < i + length vs"
proof (induction vs arbitrary: bi bv i)
  case Nil
  then show ?case by simp
next
  case (Cons v vs)
  have a: "argmin_from i v (Suc i) vs < Suc i + length vs"
    by (rule Cons.IH) simp
  have b: "argmin_from bi bv (Suc i) vs < Suc i + length vs"
    using Cons.prems by (intro Cons.IH) simp
  show ?case using a b by simp
qed

lemma argmin_bound: "argmin xs = Inr i \<Longrightarrow> i < length xs"
  using argmin_from_bound [of 0 1]
  by (auto simp: argmin_def split: list.splits)

lemma length_compute_frequencies:
  "length (compute_frequencies n_chan n_subbands df chans) = n_subbands * n_chan"
  by (induction n_subbands) (simp_all add: compute_frequencies_def Let_def)

lemma filter_upt_hd_last:
  assumes "b \<in> set xs"
  shows "filter (\<lambda>i. xs ! i = b) [0..<length xs] \<noteq> []"
    and "hd (filter (\<lambda>i. xs ! i = b) [0..<length xs]) \<le> last (filter (\<lambda>i. xs ! i = b) [0..<length xs])"
    and "last (filter (\<lambda>i. xs ! i = b) [0..<length xs]) < length xs"
proof -
  let ?f = "filter (\<lambda>i. xs ! i = b) [0..<length xs]"
  obtain i where "i < length xs" "xs ! i = b"
    using assms by (auto simp: in_set_conv_nth)
  then have "i \<in> set ?f" by simp
  then show ne: "?f \<noteq> []" by (metis empty_iff empty_set)
  have "sorted ?f" by (simp add: sorted_wrt_filter)
  then show "hd ?f \<le> last ?f"
    using ne by (metis hd_conv_nth last_conv_nth sorted_nth_mono diff_less le0 length_greater_0_conv less_one)
  have "last ?f \<in> set ?f" using ne by (rule last_in_set)
  then have "last ?f \<in> set [0..<length xs]" by (metis filter_is_subset subsetD)
  then show "last ?f < length xs" by simp
qed

lemma sort_beam_edges_entry:
  assumes "map_of (sort_beam_edges beam_array n_chan) b = Some bm"
  shows "\<exists>s0 s1. s0 \<le> s1 \<and> s1 < length beam_array \<and> bm = (s0 * n_chan, (s1 + 1) * n_chan)"
proof -
  let ?f = "filter (\<lambda>i. beam_array ! i = b) [0..<length beam_array]"
  have "(b, bm) \<in> set (sort_beam_edges beam_array n_chan)"
    using assms by (rule map_of_SomeD)
  then have b: "b \<in> set beam_array" and bm: "bm = (hd ?f * n_chan, (last ?f + 1) * n_chan)"
    by (auto simp: sort_beam_edges_def Let_def)
  show ?thesis
    using filter_upt_hd_last [OF b] bm by blast
qed

lemma new_lane_shape:
  assumes "new_lane env p = Inr li"
  shows "\<exists>beam_array. 0 < n_channels li
      \<and> length (frequency_hz li) = length beam_array * n_channels li
      \<and> snd (data_shape li) = length beam_array * n_channels li
      \<and> beam_idx li = sort_beam_edges beam_array (n_channels li)"
proof -
  obtain l f where ld: "load l f = Inr li"
    using assms by (auto simp: new_lane_def Let_def split: option.splits list.splits)
  then obtain block0 rest where b: "file_blocks f = block0 # rest"
    and pos: "0 < fftlen (file_header f)"
    and li: "li = \<lparr>lanefile = l, lane_index = None,
         lane_data = lane_data li, data_shape = data_shape li, time_unix = time_unix li,
         frequency_hz = compute_frequencies (nat (fftlen (file_header f))) (length block0)
                          (df_of (file_header f)) (map b_channel block0),
         lane_dt = lane_dt li, lane_df = lane_df li, n_channels = nat (fftlen (file_header f)),
         beam_idx = sort_beam_edges (map b_beam block0) (nat (fftlen (file_header f))),
         lane_fmin = lane_fmin li, lane_fmax = lane_fmax li\<rparr>"
    and sh: "snd (data_shape li) = length block0 * nat (fftlen (file_header f))"
    by (auto simp: load_def Let_def split: if_splits sum.splits list.splits)
  have n: "n_channels li = nat (fftlen (file_header f))"
    and fr: "frequency_hz li = compute_frequencies (nat (fftlen (file_header f))) (length block0)
                          (df_of (file_header f)) (map b_channel block0)"
    and bi: "beam_idx li = sort_beam_edges (map b_beam block0) (nat (fftlen (file_header f)))"
    by (subst li, simp)+
  show ?thesis
    by (rule exI [of _ "map b_beam block0"])
       (use pos n fr bi sh in \<open>simp add: length_compute_frequencies\<close>)
qed

lemma snap_bounds:
  fixes r nch :: nat
  assumes "0 < nch"
  shows "r div nch * nch \<le> r" and "r < r div nch * nch + nch"
    and "r < (r div nch + 1) * nch" and "(r div nch + 1) * nch \<le> r + nch"
proof -
  have e: "r = r div nch * nch + r mod nch" by simp
  have m: "r mod nch < nch" using assms by simp
  show "r div nch * nch \<le> r" by simp
  show "r < r div nch * nch + nch" using e m by linarith
  then show "r < (r div nch + 1) * nch" by (simp add: add.commute)
  show "(r div nch + 1) * nch \<le> r + nch" by (simp add: add.commute)
qed

lemma snap_upper_within:
  fixes r nch m :: nat
  assumes "0 < nch" and "r < m * nch"
  shows "(r div nch + 1) * nch \<le> m * nch"
proof -
  have "r div nch < m"
    using assms by (simp add: less_mult_imp_div_less)
  then have "r div nch + 1 \<le> m" by simp
  then show ?thesis by (rule mult_le_mono1)
qed

lemma raw_freq_idx_bounds:
  assumes "raw_freq_idx ds li bs be = Inr (r0, r1)"
  shows "r0 < min be (length (frequency_hz li)) - min bs (length (frequency_hz li))"
    and "r1 < min be (length (frequency_hz li)) - min bs (length (frequency_hz li))"
proof -
  obtain f0 f1 where
    a: "argmin (map (\<lambda>f. \<bar>f - f0\<bar>) (slice (frequency_hz li) (int bs) (int be))) = Inr r0"
    and b: "argmin (map (\<lambda>f. \<bar>f - f1\<bar>) (slice (frequency_hz li) (int bs) (int be))) = Inr r1"
    using assms by (auto simp: raw_freq_idx_def Let_def split: sum.splits prod.splits)
  show "r0 < min be (length (frequency_hz li)) - min bs (length (frequency_hz li))"
    using argmin_bound [OF a] by (simp add: length_slice_nat)
  show "r1 < min be (length (frequency_hz li)) - min bs (length (frequency_hz li))"
    using argmin_bound [OF b] by (simp add: length_slice_nat)
qed

lemma lane_select_sel:
  assumes "lane_select ds li bs be = Inr (Some sel)"
  shows "\<exists>tmin_idx tmax_idx r0 r1. raw_freq_idx ds li bs be = Inr (r0, r1) \<and>
     sel = (tmin_idx, tmax_idx, r0 div n_channels li * n_channels li,
            (r1 div n_channels li + 1) * n_channels li)"
  using assms by (auto simp: lane_select_def split: sum.splits prod.splits if_splits)

lemma slice_nat:
  "slice xs (int a) (int b) = take (min b (length xs) - min a (length xs)) (drop (min a (length xs)) xs)"
  by (simp add: slice_def slice_bound_nat)

lemma slice_slice_nat:
  assumes "be \<le> length xs" and "bs \<le> be" and "hi \<le> be - bs" and "lo \<le> be - bs"
  shows "slice (slice xs (int bs) (int be)) (int lo) (int hi) = take (hi - lo) (drop (bs + lo) xs)"
proof -
  have a: "slice xs (int bs) (int be) = take (be - bs) (drop bs xs)"
    using assms(1,2) by (simp add: slice_nat min_absorb1)
  have l: "length (take (be - bs) (drop bs xs)) = be - bs"
    using assms(1,2) by simp
  have "slice (take (be - bs) (drop bs xs)) (int lo) (int hi)
      = take (hi - lo) (drop lo (take (be - bs) (drop bs xs)))"
    using assms(3,4) by (simp only: slice_nat l) (simp add: min_absorb1)
  also have "\<dots> = take (hi - lo) (drop (bs + lo) xs)"
    using assms(3,4) by (simp add: drop_take min_absorb1 add.commute)
  finally show ?thesis by (simp only: a)
qed

lemma set_slice_subset: "set (slice xs a b) \<subseteq> set xs"
  unfolding slice_def by (meson set_take_subset set_drop_subset subset_trans)

lemma wf_darray_rows:
  "wf_darray d \<Longrightarrow> row \<in> set (cells d) \<Longrightarrow> length row = shape1 d"
  by (simp add: wf_darray_def list_all_iff)

lemma wf_darray_cell:
  "wf_darray d \<Longrightarrow> row \<in> set (cells d) \<Longrightarrow> c \<in> set row \<Longrightarrow> length c = shape2 d"
  by (simp add: wf_darray_def list_all_iff)

text \<open>
  C7. For a lane built by \<open>_Lane\<close> that has the selected beam and is not skipped, the
  frequency indices of the selection are the raw nearest-channel indices moved
  outward: the start is the largest multiple of the channel count not above the raw
  start, the stop the smallest multiple above the raw stop. The beam starts on a
  subband boundary too, and the frequencies handed to the correction stages are the
  channels of the lane from the beam start plus the lower bound, over an extent that
  is the difference of the two bounds, a multiple of the channel count. The shape of
  the data has the same extent. numpy arrays are rectangular; for a rectangular Stokes
  array (\<open>wf_darray\<close>) every row of the data handed to the stages consists of these very
  channels of the row of the lane, so its length is that extent, and the selected
  array is rectangular again.
\<close>

theorem C7_whole_subbands:
  assumes "new_lane env p = Inr li"
    and "map_of (beam_idx li) (beam ds) = Some bm"
    and "lane_select ds li (fst bm) (snd bm) = Inr (Some sel)"
    and "stokes_array li stokes = Inr (Some d)"
  shows "\<exists>tmin_idx tmax_idx fmin_raw fmax_raw.
      raw_freq_idx ds li (fst bm) (snd bm) = Inr (fmin_raw, fmax_raw) \<and>
      sel = (tmin_idx, tmax_idx, fmin_raw div n_channels li * n_channels li,
             (fmax_raw div n_channels li + 1) * n_channels li) \<and>
      fmin_raw div n_channels li * n_channels li \<le> fmin_raw \<and>
      fmin_raw < fmin_raw div n_channels li * n_channels li + n_channels li \<and>
      fmax_raw < (fmax_raw div n_channels li + 1) * n_channels li \<and>
      (fmax_raw div n_channels li + 1) * n_channels li \<le> fmax_raw + n_channels li \<and>
      length (select_freqs li bm sel) =
        (fmax_raw div n_channels li + 1) * n_channels li - fmin_raw div n_channels li * n_channels li \<and>
      shape1 (select_data d bm sel) = length (select_freqs li bm sel) \<and>
      n_channels li dvd length (select_freqs li bm sel) \<and> 0 < n_channels li \<and>
      n_channels li dvd fst bm \<and>
      select_freqs li bm sel =
        take ((fmax_raw div n_channels li + 1) * n_channels li - fmin_raw div n_channels li * n_channels li)
          (drop (fst bm + fmin_raw div n_channels li * n_channels li) (frequency_hz li)) \<and>
      (wf_darray d \<longrightarrow>
         cells (select_data d bm sel) =
           map (\<lambda>row. take ((fmax_raw div n_channels li + 1) * n_channels li
                             - fmin_raw div n_channels li * n_channels li)
                         (drop (fst bm + fmin_raw div n_channels li * n_channels li) row))
             (slice (cells d) (int tmin_idx) (int tmax_idx)) \<and>
         (\<forall>row \<in> set (cells (select_data d bm sel)).
            length row = (fmax_raw div n_channels li + 1) * n_channels li
                           - fmin_raw div n_channels li * n_channels li \<and>
            n_channels li dvd length row) \<and>
         wf_darray (select_data d bm sel))"
proof -
  let ?nch = "n_channels li"
  let ?n = "length (frequency_hz li)"
  from new_lane_shape [OF assms(1)] obtain beam_array where
    pos: "0 < ?nch" and len: "?n = length beam_array * ?nch"
    and sh: "snd (data_shape li) = length beam_array * ?nch"
    and bi: "beam_idx li = sort_beam_edges beam_array ?nch"
    by blast
  from sort_beam_edges_entry [OF assms(2) [unfolded bi]] obtain s0 s1 where
    s: "s0 \<le> s1" "s1 < length beam_array" and bm: "bm = (s0 * ?nch, (s1 + 1) * ?nch)"
    by blast
  from lane_select_sel [OF assms(3)] obtain tmin_idx tmax_idx r0 r1 where
    raw: "raw_freq_idx ds li (fst bm) (snd bm) = Inr (r0, r1)"
    and sel: "sel = (tmin_idx, tmax_idx, r0 div ?nch * ?nch, (r1 div ?nch + 1) * ?nch)"
    by blast
  have be: "(s1 + 1) * ?nch \<le> ?n"
    unfolding len using s(2) by (intro mult_le_mono1) simp
  have bs: "s0 * ?nch \<le> (s1 + 1) * ?nch"
    using s(1) by (intro mult_le_mono1) simp
  define L where "L = (s1 + 1 - s0) * ?nch"
  have L: "min (snd bm) ?n - min (fst bm) ?n = L"
    using be bs by (simp add: bm L_def min_absorb1 diff_mult_distrib)
  have L2: "snd bm - fst bm = L"
    by (simp add: bm L_def diff_mult_distrib)
  have r: "r0 < L" "r1 < L"
    using raw_freq_idx_bounds [OF raw] L by simp_all
  have lo: "r0 div ?nch * ?nch \<le> r0" by simp
  have hi: "(r1 div ?nch + 1) * ?nch \<le> L"
    unfolding L_def using pos r(2) [unfolded L_def] by (rule snap_upper_within)
  let ?lo = "r0 div ?nch * ?nch"
  let ?hi = "(r1 div ?nch + 1) * ?nch"
  have sf: "select_freqs li bm sel =
      slice (slice (frequency_hz li) (int (fst bm)) (int (snd bm))) (int ?lo) (int ?hi)"
    by (simp add: select_freqs_def sel split: prod.splits del: of_nat_mult of_nat_add)
  then have "length (select_freqs li bm sel) = min ?hi L - min ?lo L"
    by (simp only: length_slice_nat L)
  then have lenf: "length (select_freqs li bm sel) = ?hi - ?lo"
    using lo hi r(1) by (simp add: min_absorb1)
  have shd: "shape1 d = ?n"
    using assms(4) sh len by (auto simp: stokes_array_def split: sum.splits option.splits)
  have "shape1 (select_data d bm sel) =
      slice_len (slice_len (shape1 d) (int (fst bm)) (int (snd bm))) (int ?lo) (int ?hi)"
    by (simp add: select_data_def sel split: prod.splits del: of_nat_mult of_nat_add)
  then have "shape1 (select_data d bm sel) = min ?hi L - min ?lo L"
    by (simp only: slice_len_nat shd L)
  then have lend: "shape1 (select_data d bm sel) = ?hi - ?lo"
    using lo hi r(1) by (simp add: min_absorb1)
  have dv: "?nch dvd ?hi - ?lo"
    by (intro dvd_diff_nat) simp_all
  have dvb: "?nch dvd fst bm"
    by (simp add: bm)
  have be2: "snd bm \<le> ?n" and bs2: "fst bm \<le> snd bm"
    using be bs by (simp_all add: bm)
  have hi2: "?hi \<le> snd bm - fst bm"
    using hi L2 by simp
  have lo2: "?lo \<le> snd bm - fst bm"
    unfolding L2 by (rule le_trans [OF lo less_imp_le [OF r(1)]])
  have sfe: "select_freqs li bm sel = take (?hi - ?lo) (drop (fst bm + ?lo) (frequency_hz li))"
    unfolding sf using be2 bs2 hi2 lo2 by (rule slice_slice_nat)
  have sdc: "cells (select_data d bm sel) =
      map (\<lambda>row. slice (slice row (int (fst bm)) (int (snd bm))) (int ?lo) (int ?hi))
        (slice (cells d) (int tmin_idx) (int tmax_idx))"
    by (simp add: select_data_def sel split: prod.splits del: of_nat_mult of_nat_add)
  have sd0: "shape0 (select_data d bm sel) = slice_len (shape0 d) (int tmin_idx) (int tmax_idx)"
    and sd2: "shape2 (select_data d bm sel) = shape2 d"
    by (simp_all add: select_data_def sel split: prod.splits del: of_nat_mult of_nat_add)
  have w: "cells (select_data d bm sel) =
           map (\<lambda>row. take (?hi - ?lo) (drop (fst bm + ?lo) row))
             (slice (cells d) (int tmin_idx) (int tmax_idx)) \<and>
         (\<forall>row \<in> set (cells (select_data d bm sel)).
            length row = ?hi - ?lo \<and> ?nch dvd length row) \<and>
         wf_darray (select_data d bm sel)" if wf: "wf_darray d"
  proof -
    have rows: "length row = ?n \<and> (\<forall>c \<in> set row. length c = shape2 d)"
      if "row \<in> set (slice (cells d) (int tmin_idx) (int tmax_idx))" for row
    proof -
      have "row \<in> set (cells d)" using that set_slice_subset by fastforce
      then show ?thesis
        using wf_darray_rows [OF wf] wf_darray_cell [OF wf] shd by auto
    qed
    have c: "cells (select_data d bm sel) =
           map (\<lambda>row. take (?hi - ?lo) (drop (fst bm + ?lo) row))
             (slice (cells d) (int tmin_idx) (int tmax_idx))"
      unfolding sdc
    proof (rule map_cong [OF refl])
      fix row assume "row \<in> set (slice (cells d) (int tmin_idx) (int tmax_idx))"
      then have "snd bm \<le> length row" using rows be2 by simp
      then show "slice (slice row (int (fst bm)) (int (snd bm))) (int ?lo) (int ?hi)
          = take (?hi - ?lo) (drop (fst bm + ?lo) row)"
        using bs2 hi2 lo2 by (rule slice_slice_nat)
    qed
    have rl: "length row = ?hi - ?lo \<and> (\<forall>c \<in> set row. length c = shape2 d)"
      if "row \<in> set (cells (select_data d bm sel))" for row
    proof -
      from that obtain r where r: "r \<in> set (slice (cells d) (int tmin_idx) (int tmax_idx))"
        and row: "row = take (?hi - ?lo) (drop (fst bm + ?lo) r)"
        unfolding c by auto
      have "fst bm + ?hi \<le> length r"
        using rows [OF r] be2 bs2 hi2 by simp
      then have "length row = ?hi - ?lo"
        unfolding row by simp
      moreover have "set row \<subseteq> set r"
        unfolding row by (meson set_take_subset set_drop_subset subset_trans)
      ultimately show ?thesis using rows [OF r] by auto
    qed
    have l0: "length (cells (select_data d bm sel)) = shape0 (select_data d bm sel)"
      unfolding c sd0 using wf by (simp add: length_slice_nat slice_len_nat wf_darray_def)
    have wf': "wf_darray (select_data d bm sel)"
      using l0 rl lend lenf sd2 by (simp add: wf_darray_def list_all_iff)
    show ?thesis
    proof (intro conjI ballI)
      show "cells (select_data d bm sel) =
           map (\<lambda>row. take (?hi - ?lo) (drop (fst bm + ?lo) row))
             (slice (cells d) (int tmin_idx) (int tmax_idx))"
        by (rule c)
      show "wf_darray (select_data d bm sel)" by (rule wf')
      fix row assume "row \<in> set (cells (select_data d bm sel))"
      then have e: "length row = ?hi - ?lo" using rl by blast
      then show "length row = ?hi - ?lo" .
      show "?nch dvd length row" unfolding e by (rule dv)
    qed
  qed
  show ?thesis
  proof (rule exI [of _ tmin_idx], rule exI [of _ tmax_idx], rule exI [of _ r0],
      rule exI [of _ r1], intro conjI)
    show "raw_freq_idx ds li (fst bm) (snd bm) = Inr (r0, r1)" by (rule raw)
    show "sel = (tmin_idx, tmax_idx, ?lo, ?hi)" by (rule sel)
    show "?lo \<le> r0" by (rule lo)
    show "r0 < ?lo + ?nch" by (rule snap_bounds [OF pos])
    show "r1 < ?hi" by (rule snap_bounds [OF pos])
    show "?hi \<le> r1 + ?nch" by (rule snap_bounds [OF pos])
    show "length (select_freqs li bm sel) = ?hi - ?lo" by (rule lenf)
    show "shape1 (select_data d bm sel) = length (select_freqs li bm sel)"
      by (simp only: lend lenf)
    show "?nch dvd length (select_freqs li bm sel)" unfolding lenf by (rule dv)
    show "0 < ?nch" by (rule pos)
    show "?nch dvd fst bm" by (rule dvb)
    show "select_freqs li bm sel = take (?hi - ?lo) (drop (fst bm + ?lo) (frequency_hz li))"
      by (rule sfe)
    show "wf_darray d \<longrightarrow>
         cells (select_data d bm sel) =
           map (\<lambda>row. take (?hi - ?lo) (drop (fst bm + ?lo) row))
             (slice (cells d) (int tmin_idx) (int tmax_idx)) \<and>
         (\<forall>row \<in> set (cells (select_data d bm sel)).
            length row = ?hi - ?lo \<and> ?nch dvd length row) \<and>
         wf_darray (select_data d bm sel)"
      using w by (rule impI)
  qed
qed

lemma lane_a_new: "new_lane env0 ''/obs/A_0.spectra'' = Inr lane_a"
  by code_simp

lemma lane_a_beam: "map_of (beam_idx lane_a) (beam dynspec_sel) = Some (0, 8)"
  by code_simp

lemma lane_a_select: "lane_select dynspec_sel lane_a 0 8 = Inr (Some (0, 1, 0, 8))"
  by code_simp

lemma lane_a_raw: "raw_freq_idx dynspec_sel lane_a 0 8 = Inr (1, 5)"
  by code_simp

lemma lane_a_extent:
  "length (select_freqs lane_a (0, 8) (0, 1, 0, 8)) = 8 \<and>
   shape1 (select_data stokes_a (0, 8) (0, 1, 0, 8)) = 8 \<and> n_channels lane_a = 4"
  by code_simp

lemma stokes_a_wf: "wf_darray stokes_a"
  by code_simp

theorem C7_whole_subbands_witness:
  "new_lane env0 ''/obs/A_0.spectra'' = Inr lane_a \<and>
   map_of (beam_idx lane_a) (beam dynspec_sel) = Some (0, 8) \<and>
   lane_select dynspec_sel lane_a 0 8 = Inr (Some (0, 1, 0, 8)) \<and>
   stokes_array lane_a ''I'' = Inr (Some stokes_a) \<and>
   wf_darray stokes_a \<and>
   raw_freq_idx dynspec_sel lane_a 0 8 = Inr (1, 5) \<and>
   length (select_freqs lane_a (0, 8) (0, 1, 0, 8)) = 8 \<and>
   shape1 (select_data stokes_a (0, 8) (0, 1, 0, 8)) = 8 \<and>
   n_channels lane_a = 4 \<and>
   n_channels lane_a dvd length (select_freqs lane_a (0, 8) (0, 1, 0, 8)) \<and>
   cells (select_data stokes_a (0, 8) (0, 1, 0, 8)) = [replicate 8 [Some 8]] \<and>
   wf_darray (select_data stokes_a (0, 8) (0, 1, 0, 8))"
proof -
  have s: "lane_select dynspec_sel lane_a (fst (0 :: nat, 8 :: nat)) (snd (0 :: nat, 8 :: nat))
      = Inr (Some (0, 1, 0, 8))"
    using lane_a_select by simp
  from C7_whole_subbands [OF lane_a_new lane_a_beam s lane_a_stokes]
  have "n_channels lane_a dvd length (select_freqs lane_a (0, 8) (0, 1, 0, 8))"
    and "wf_darray (select_data stokes_a (0, 8) (0, 1, 0, 8))"
    using stokes_a_wf by blast+
  then show ?thesis
    using lane_a_new lane_a_beam lane_a_select lane_a_stokes lane_a_raw lane_a_extent
      stokes_a_wf lane_a_cells
    by (intro conjI) simp_all
qed

end
